theory Spec2Isabelle
  imports Complex_Main "HOL-Library.Word" "HOL-Library.Char_ord"
    "HOL-Library.Code_Target_Numeral"
begin

section \<open>syno-iscsi: the command layer of main.go over a scripted storage client\<close>

text \<open>
  The embedding follows \<^verbatim>\<open>main.go\<close> and \<^verbatim>\<open>syno/syno.go\<close>.
  Go's \<^verbatim>\<open>int\<close> is taken as 64 bits wide (the amd64 and arm64 builds), \<^verbatim>\<open>uint64\<close> is
  \<open>64 word\<close>, strings are byte lists. Everything a command does besides returning is
  explicit: what it writes to \<^verbatim>\<open>out\<close> and which methods of \<^verbatim>\<open>synoClient\<close> it calls are
  appended to a \<open>world\<close> that is passed through; an \<^verbatim>\<open>error\<close> return is \<open>Some e\<close>.
\<close>

subsection \<open>Errors\<close>

text \<open>\<^verbatim>\<open>errApp\<close> is the domain error of main.go; every other Go error is \<open>otherErr\<close>
  with its message.\<close>

datatype error = errApp string | otherErr string

fun Error :: "error \<Rightarrow> string" where
  "Error (errApp s) = s"
| "Error (otherErr s) = s"

subsection \<open>The types of the webapi package, as main.go and its tests use them\<close>

type_synonym uint64 = "64 word"

record VolInfo =
  vol_Path :: string
  vol_Status :: string
  vol_FsType :: string
  vol_Size :: string
  vol_Free :: string

record LunInfo =
  lun_Name :: string
  lun_Uuid :: string
  lun_LunType :: int
  lun_Location :: string
  lun_Size :: uint64
  lun_Used :: uint64
  lun_Status :: string

record MappedLun =
  ml_LunUuid :: string
  ml_MappingIndex :: int

record ConncetedSession =
  cs_Iqn :: string
  cs_Ip :: string

record TargetInfo =
  tgt_Name :: string
  tgt_Iqn :: string
  tgt_MaxSessions :: int
  tgt_MappedLuns :: "MappedLun list"
  tgt_ConnectedSessions :: "ConncetedSession list"
  tgt_TargetId :: int

record LunDevAttrib =
  DevAttrib :: string
  Enable :: int

text \<open>\<open>lcs_Size\<close> is an \<^verbatim>\<open>int64\<close>: the field holds its signed value.\<close>

record LunCreateSpec =
  lcs_Name :: string
  lcs_Location :: string
  lcs_Size :: int
  lcs_Type :: string
  lcs_DevAttribs :: "LunDevAttrib list"

record LunUpdateSpec =
  lus_Uuid :: string
  lus_NewSize :: uint64

record LunCloneSpec =
  cln_Name :: string
  cln_SrcLunUuid :: string
  cln_Location :: string

record TargetCreateSpec =
  tcs_Name :: string
  tcs_Iqn :: string

subsection \<open>The storage client\<close>

text \<open>
  \<^verbatim>\<open>syno.Client\<close> is an interface; the commands only see what its methods return. As in
  the test suite's \<^verbatim>\<open>MockSynoClient\<close>, a client is the record of its replies. No command
  calls one method twice, so a reply that is fixed for a run loses no behaviour.
\<close>

record Client =
  cl_Login :: "error option"
  cl_Logout :: "error option"
  cl_VolumeList :: "error + VolInfo list"
  cl_LunList :: "error + LunInfo list"
  cl_LunCreate :: "LunCreateSpec \<Rightarrow> error + string"
  cl_LunUpdate :: "LunUpdateSpec \<Rightarrow> error option"
  cl_LunClone :: "LunCloneSpec \<Rightarrow> error + string"
  cl_LunDelete :: "string \<Rightarrow> error option"
  cl_LunMapTarget :: "string list \<Rightarrow> string \<Rightarrow> error option"
  cl_TargetList :: "error + TargetInfo list"
  cl_TargetCreate :: "TargetCreateSpec \<Rightarrow> error + string"
  cl_TargetDelete :: "string \<Rightarrow> error option"

text \<open>One event per method call on \<^verbatim>\<open>synoClient\<close>, with the arguments passed.\<close>

datatype call =
    Init string int string string bool
  | Login
  | Logout
  | VolumeList
  | LunList
  | LunCreate LunCreateSpec
  | LunUpdate LunUpdateSpec
  | LunClone LunCloneSpec
  | LunDelete string
  | LunMapTarget "string list" string
  | TargetList
  | TargetCreate TargetCreateSpec
  | TargetDelete string

text \<open>The package variables of main.go and the process's surroundings: the global flags,
  the bytes waiting on \<^verbatim>\<open>in\<close>, whether stdin is a terminal and what
  \<^verbatim>\<open>term.ReadPassword\<close> returns.\<close>

record env =
  host :: string
  port :: int
  user :: string
  pass :: string
  https :: bool
  inp :: string
  isTerminal :: bool
  readPassword :: "error + string"
  synoClient :: Client

text \<open>What a run has written to \<^verbatim>\<open>out\<close> and called on the client so far.\<close>

record world =
  out :: string
  calls :: "call list"

definition Fprint :: "world \<Rightarrow> string \<Rightarrow> world" where
  "Fprint w s = w\<lparr>out := out w @ s\<rparr>"

definition nl :: string where
  "nl = [CHR 0x0A]"

definition Fprintln :: "world \<Rightarrow> string \<Rightarrow> world" where
  "Fprintln w s = Fprint w (s @ nl)"

definition invoke :: "world \<Rightarrow> call \<Rightarrow> world" where
  "invoke w c = w\<lparr>calls := calls w @ [c]\<rparr>"

text \<open>The parsed command line of one subcommand (\<^verbatim>\<open>cli.Context\<close>): the boolean flags
  that are set, by their long names, and the positional arguments.\<close>

record Context =
  flagsSet :: "string list"
  args :: "string list"

definition ctx_Bool :: "Context \<Rightarrow> string \<Rightarrow> bool" where
  "ctx_Bool ctx name = (name \<in> set (flagsSet ctx))"

definition NArg :: "Context \<Rightarrow> int" where
  "NArg ctx = int (length (args ctx))"

text \<open>\<^verbatim>\<open>ctx.Args().Get(i)\<close> is the empty string past the end.\<close>

definition Get :: "Context \<Rightarrow> nat \<Rightarrow> string" where
  "Get ctx i = (if i < length (args ctx) then args ctx ! i else [])"

subsection \<open>The standard library functions the commands rely on\<close>

text \<open>Characters are bytes, ordered by their codes.\<close>

definition isDigit :: "char \<Rightarrow> bool" where
  "isDigit c = (CHR ''0'' \<le> c \<and> c \<le> CHR ''9'')"

definition digitVal :: "char \<Rightarrow> nat" where
  "digitVal c = of_char c - of_char CHR ''0''"

definition decimalVal :: "string \<Rightarrow> nat" where
  "decimalVal s = foldl (\<lambda>n c. n * 10 + digitVal c) 0 s"

text \<open>
  \<^verbatim>\<open>strconv.Atoi\<close> with a 64-bit \<^verbatim>\<open>int\<close>: an optional sign, then at least one decimal
  digit and nothing else; a value outside \<open>-2^63 .. 2^63 - 1\<close> is a range error. The
  callers treat every error alike, so an error is \<open>None\<close>.
\<close>

definition Atoi :: "string \<Rightarrow> int option" where
  "Atoi s =
     (if s = [] then None
      else
        let neg = (hd s = CHR ''-'');
            body = (if hd s = CHR ''-'' \<or> hd s = CHR ''+'' then tl s else s)
        in if body = [] \<or> \<not> list_all isDigit body then None
           else
             let n = decimalVal body
             in if neg then (if n \<le> 2 ^ 63 then Some (- int n) else None)
                else (if n < 2 ^ 63 then Some (int n) else None))"

text \<open>\<^verbatim>\<open>strconv.ParseUint(s, 10, 64)\<close>: decimal digits only, no sign, below \<open>2^64\<close>.\<close>

definition ParseUint :: "string \<Rightarrow> uint64 option" where
  "ParseUint s =
     (if s = [] \<or> \<not> list_all isDigit s then None
      else if decimalVal s < 2 ^ 64 then Some (of_nat (decimalVal s)) else None)"

text \<open>Decimal rendering, for \<^verbatim>\<open>strconv.Itoa\<close> and the \<^verbatim>\<open>%d\<close> verb.\<close>

definition digitChar :: "nat \<Rightarrow> char" where
  "digitChar d = ''0123456789'' ! d"

function natDigits :: "nat \<Rightarrow> string" where
  "natDigits n =
     (if n < 10 then [digitChar n]
      else natDigits (n div 10) @ [digitChar (n mod 10)])"
  by pat_completeness auto
termination
  by (relation "measure id") auto

declare natDigits.simps [simp del]

definition Itoa :: "int \<Rightarrow> string" where
  "Itoa i = (if i < 0 then CHR ''-'' # natDigits (nat (- i)) else natDigits (nat i))"

fun Join :: "string list \<Rightarrow> string \<Rightarrow> string" where
  "Join [] sep = []"
| "Join [x] sep = x"
| "Join (x # y # ys) sep = x @ sep @ Join (y # ys) sep"

fun HasPrefix :: "string \<Rightarrow> string \<Rightarrow> bool" where
  "HasPrefix s [] = True"
| "HasPrefix [] (p # ps) = False"
| "HasPrefix (c # cs) (p # ps) = (c = p \<and> HasPrefix cs ps)"

fun Contains :: "string \<Rightarrow> string \<Rightarrow> bool" where
  "Contains [] sub = (sub = [])"
| "Contains (c # cs) sub = (HasPrefix (c # cs) sub \<or> Contains cs sub)"

text \<open>
  \<^verbatim>\<open>lunRegex = regexp.MustCompile("^[a-zA-Z0-9-]+$")\<close>. In Go's syntax \<^verbatim>\<open>$\<close> without the
  multi-line flag matches at the end of the text only, so the expression matches exactly
  the non-empty strings over the class.
\<close>

definition lunRegexClass :: "char \<Rightarrow> bool" where
  "lunRegexClass c =
     ((CHR ''a'' \<le> c \<and> c \<le> CHR ''z'') \<or> (CHR ''A'' \<le> c \<and> c \<le> CHR ''Z'') \<or>
      (CHR ''0'' \<le> c \<and> c \<le> CHR ''9'') \<or> c = CHR ''-'')"

definition lunRegex_MatchString :: "string \<Rightarrow> bool" where
  "lunRegex_MatchString s = (s \<noteq> [] \<and> list_all lunRegexClass s)"

text \<open>
  \<^verbatim>\<open>scanLine\<close>: a fresh \<^verbatim>\<open>bufio.Scanner\<close> over \<^verbatim>\<open>in\<close>, one \<^verbatim>\<open>Scan\<close>, then \<^verbatim>\<open>Text\<close>. The
  scanner splits at the first newline and drops one trailing carriage return; at the end
  of input the rest is the line, and nothing at all gives the empty string. A line that
  does not fit the scanner's 64 KiB buffer makes \<^verbatim>\<open>Scan\<close> fail, and \<^verbatim>\<open>Text\<close> is empty.
\<close>

definition dropCR :: "string \<Rightarrow> string" where
  "dropCR s = (if s \<noteq> [] \<and> last s = CHR 0x0D then butlast s else s)"

definition scanLine :: "string \<Rightarrow> string" where
  "scanLine input =
     (let line = takeWhile (\<lambda>c. c \<noteq> CHR 0x0A) input
      in if 65536 \<le> length line then [] else dropCR line)"

subsection \<open>Constants of main.go and syno.go\<close>

definition gb :: uint64 where
  "gb = 1024 * 1024 * 1024"

definition missingGlobalArgsMsg :: "string \<Rightarrow> string" where
  "missingGlobalArgsMsg s = ''the following global flag(s) are missing: '' @ s"

definition notEnoughArgsMsg :: "int \<Rightarrow> int \<Rightarrow> string" where
  "notEnoughArgsMsg expected got =
     ''invalid number of arguments, expected '' @ Itoa expected @ '' but got '' @ Itoa got"

definition lunReclaimThinMsg :: string where
  "lunReclaimThinMsg = ''--reclaim can only be used with --thin''"

definition lunInvalidNameMsg :: string where
  "lunInvalidNameMsg = ''invalid LUN name, must consist of a-z, A-Z, 0-9, and hyphens (-)''"

definition lunInvalidSizeMsg :: string where
  "lunInvalidSizeMsg = ''invalid LUN size, must be a positive integer''"

definition volumeNotEnoughSpaceMsg :: "string \<Rightarrow> int \<Rightarrow> string" where
  "volumeNotEnoughSpaceMsg path free =
     ''not enough space, '' @ path @ '' has '' @ Itoa free @ '' GiB free''"

definition lunCannotDecreaseSizeMsg :: string where
  "lunCannotDecreaseSizeMsg = ''LUN cannot decrease in size''"

definition targetActiveSessionMsg :: string where
  "targetActiveSessionMsg =
     ''There are active sessions, please logout of all clients before continuing (force delete with -f)''"

definition targetForceDeleteMsg :: string where
  "targetForceDeleteMsg = ''Force deleting even though there are active sessions''"

definition volumeNotFoundMsg :: "string \<Rightarrow> string" where
  "volumeNotFoundMsg path = ''could not find volume with path: '' @ path"

definition lunNotFoundMsg :: "string \<Rightarrow> string" where
  "lunNotFoundMsg name = ''could not find LUN with name: '' @ name"

definition targetNotFoundMsg :: "string \<Rightarrow> string" where
  "targetNotFoundMsg name = ''could not find target with name: '' @ name"

definition lunCreatedMsg :: string where
  "lunCreatedMsg = ''LUN created successfully''"

definition lunResizedMsg :: string where
  "lunResizedMsg = ''LUN resized successfully''"

definition lunClonedMsg :: string where
  "lunClonedMsg = ''LUN cloned successfully''"

definition lunDeletedMsg :: string where
  "lunDeletedMsg = ''LUN deleted successfully''"

definition targetCreatedMsg :: string where
  "targetCreatedMsg = ''Target created successfully''"

definition targetDeletedMsg :: string where
  "targetDeletedMsg = ''Target deleted successfully''"

definition LUN_SPACE_RECLAMATION :: LunDevAttrib where
  "LUN_SPACE_RECLAMATION = \<lparr>DevAttrib = ''emulate_tpu'', Enable = 1\<rparr>"

definition LUN_FUA_WRITE :: LunDevAttrib where
  "LUN_FUA_WRITE = \<lparr>DevAttrib = ''emulate_fua_write'', Enable = 1\<rparr>"

definition LUN_SYNC_CACHE :: LunDevAttrib where
  "LUN_SYNC_CACHE = \<lparr>DevAttrib = ''emulate_sync_cache'', Enable = 1\<rparr>"

definition GetLunType :: "string \<Rightarrow> bool \<Rightarrow> string" where
  "GetLunType fsType thin =
     (if fsType = ''ext4'' then (if thin then ''ADV'' else ''FILE'')
      else if fsType = ''btrfs'' then (if thin then ''BLUN'' else ''BLUN_THICK'')
      else [])"

subsection \<open>Helpers of main.go\<close>

definition verifyArgs :: "int \<Rightarrow> Context \<Rightarrow> error option" where
  "verifyArgs numArgs ctx =
     (if NArg ctx \<noteq> numArgs then Some (errApp (notEnoughArgsMsg numArgs (NArg ctx)))
      else None)"

definition readPass :: "env \<Rightarrow> world \<Rightarrow> (error + string) \<times> world" where
  "readPass e w =
     (let w1 = Fprint w ''Enter Password: ''
      in case readPassword e of
           Inl err \<Rightarrow> (Inl err, w1)
         | Inr passBytes \<Rightarrow> (Inr passBytes, Fprintln w1 []))"

definition initAndLogin :: "env \<Rightarrow> world \<Rightarrow> error option \<times> world" where
  "initAndLogin e w =
     (let missing =
            (if host e = [] then [''host''] else []) @
            (if user e = [] then [''user''] else []) @
            (if pass e = [] \<and> \<not> isTerminal e then [''pass''] else [])
      in if missing \<noteq> [] then (Some (errApp (missingGlobalArgsMsg (Join missing '', ''))), w)
         else
           case (if pass e = [] then readPass e w else (Inr (pass e), w)) of
             (Inl err, w1) \<Rightarrow> (Some err, w1)
           | (Inr p, w1) \<Rightarrow>
               let w2 = invoke (invoke w1 (Init (host e) (port e) (user e) p (https e))) Login
               in case cl_Login (synoClient e) of
                    None \<Rightarrow> (None, w2)
                  | Some err \<Rightarrow>
                      if Error err = ''DSM Api error. Error code:400''
                      then (Some (errApp ''Invalid user and/or pass''), w2)
                      else if Contains (Error err) ''dial tcp''
                      then (Some (errApp (''problem connecting to host ('' @ Error err @ '')'')), w2)
                      else (Some err, w2))"

definition logout :: "env \<Rightarrow> world \<Rightarrow> world" where
  "logout e w =
     (let w1 = invoke w Logout
      in case cl_Logout (synoClient e) of
           Some err \<Rightarrow> Fprint w1 (''Error: failed to logout of DSM: '' @ Error err)
         | None \<Rightarrow> w1)"

text \<open>\<^verbatim>\<open>defer logout()\<close>: whatever the rest of the command returns, \<open>logout\<close> runs after it.\<close>

definition deferLogout :: "env \<Rightarrow> error option \<times> world \<Rightarrow> error option \<times> world" where
  "deferLogout e r = (fst r, logout e (snd r))"

text \<open>\<^verbatim>\<open>int(size / gb)\<close>: unsigned division, then the conversion to \<^verbatim>\<open>int\<close>.\<close>

definition bytesToGiB :: "uint64 \<Rightarrow> int" where
  "bytesToGiB sz = sint (sz div gb)"

definition getVolumeByPath :: "env \<Rightarrow> string \<Rightarrow> world \<Rightarrow> (error + VolInfo) \<times> world" where
  "getVolumeByPath e path w =
     (let w1 = invoke w VolumeList
      in case cl_VolumeList (synoClient e) of
           Inl err \<Rightarrow> (Inl err, w1)
         | Inr volumes \<Rightarrow>
             (case find (\<lambda>volume. path = vol_Path volume) volumes of
                Some volume \<Rightarrow> (Inr volume, w1)
              | None \<Rightarrow> (Inl (errApp (volumeNotFoundMsg path)), w1)))"

definition getLunByName :: "env \<Rightarrow> string \<Rightarrow> world \<Rightarrow> (error + LunInfo) \<times> world" where
  "getLunByName e name w =
     (let w1 = invoke w LunList
      in case cl_LunList (synoClient e) of
           Inl err \<Rightarrow> (Inl err, w1)
         | Inr luns \<Rightarrow>
             (case find (\<lambda>lun. name = lun_Name lun) luns of
                Some lun \<Rightarrow> (Inr lun, w1)
              | None \<Rightarrow> (Inl (errApp (lunNotFoundMsg name)), w1)))"

definition getTargetByName :: "env \<Rightarrow> string \<Rightarrow> world \<Rightarrow> (error + TargetInfo) \<times> world" where
  "getTargetByName e name w =
     (let w1 = invoke w TargetList
      in case cl_TargetList (synoClient e) of
           Inl err \<Rightarrow> (Inl err, w1)
         | Inr targets \<Rightarrow>
             (case find (\<lambda>target. name = tgt_Name target) targets of
                Some target \<Rightarrow> (Inr target, w1)
              | None \<Rightarrow> (Inl (errApp (targetNotFoundMsg name)), w1)))"

text \<open>
  The size argument of \<^verbatim>\<open>lun create\<close> (lines 286 to 290) and of \<^verbatim>\<open>lun resize\<close> (lines 393
  to 397), the same three statements in both: \<^verbatim>\<open>Atoi\<close>, the test
  \<^verbatim>\<open>err != nil || sizeGB <= 0\<close>, and \<^verbatim>\<open>uint64(sizeGB) * gb\<close>, a product of 64-bit
  words. \<open>None\<close> is the return of \<^verbatim>\<open>lunInvalidSizeMsg\<close>.
\<close>

definition parseSizeGB :: "string \<Rightarrow> uint64 option" where
  "parseSizeGB sizeStr =
     (case Atoi sizeStr of
        None \<Rightarrow> None
      | Some sizeGB \<Rightarrow> if sizeGB \<le> 0 then None else Some (word_of_int sizeGB * gb))"

text \<open>
  The error of a failed \<^verbatim>\<open>strconv.ParseUint\<close>, which the commands pass on unwrapped: a
  \<^verbatim>\<open>NumError\<close> whose text names the function, the quoted input and the reason.
  \<open>Quote\<close> is \<^verbatim>\<open>strconv.Quote\<close> for input of printable ASCII: double quotes around it, a
  backslash before a double quote and before a backslash.
\<close>

definition Quote :: "string \<Rightarrow> string" where
  "Quote s =
     [CHR 0x22] @
     concat (map (\<lambda>c. if c = CHR 0x22 \<or> c = CHR 0x5C then [CHR 0x5C, c] else [c]) s) @
     [CHR 0x22]"

definition parseUintErr :: "string \<Rightarrow> error" where
  "parseUintErr s =
     otherErr (''strconv.ParseUint: parsing '' @ Quote s @ '': '' @
               (if s = [] \<or> \<not> list_all isDigit s then ''invalid syntax''
                else ''value out of range''))"

subsection \<open>The commands\<close>

text \<open>
  Each \<^verbatim>\<open>Action\<close> is split where \<^verbatim>\<open>defer logout()\<close> stands: the part up to a successful
  \<open>initAndLogin\<close>, and the rest (\<open>_session\<close>), after which \<open>logout\<close> runs.
\<close>

definition lunCreate_session ::
  "env \<Rightarrow> string \<Rightarrow> string \<Rightarrow> uint64 \<Rightarrow> bool \<Rightarrow> bool \<Rightarrow> bool \<Rightarrow> world \<Rightarrow> error option \<times> world"
where
  "lunCreate_session e name volumePath sz thin reclaim syncCache w =
     (case getVolumeByPath e volumePath w of
        (Inl err, w1) \<Rightarrow> (Some err, w1)
      | (Inr volume, w1) \<Rightarrow>
          (case ParseUint (vol_Free volume) of
             None \<Rightarrow> (Some (parseUintErr (vol_Free volume)), w1)
           | Some free \<Rightarrow>
               if sz > free
               then (Some (errApp (volumeNotEnoughSpaceMsg volumePath (bytesToGiB free))), w1)
               else
                 let devAttributes =
                       (if reclaim then [LUN_SPACE_RECLAMATION] else []) @
                       (if syncCache then [LUN_FUA_WRITE, LUN_SYNC_CACHE] else []);
                     lunType = GetLunType (vol_FsType volume) thin;
                     spec = \<lparr>lcs_Name = name, lcs_Location = volumePath, lcs_Size = sint sz,
                             lcs_Type = lunType, lcs_DevAttribs = devAttributes\<rparr>;
                     w2 = invoke w1 (LunCreate spec)
                 in case cl_LunCreate (synoClient e) spec of
                      Inl err \<Rightarrow> (Some err, w2)
                    | Inr uuid \<Rightarrow> (None, Fprintln w2 lunCreatedMsg)))"

definition lunCreateCmd :: "env \<Rightarrow> Context \<Rightarrow> world \<Rightarrow> error option \<times> world" where
  "lunCreateCmd e ctx w =
     (case verifyArgs 3 ctx of
        Some err \<Rightarrow> (Some err, w)
      | None \<Rightarrow>
          let thin = ctx_Bool ctx ''thin'';
              reclaim = ctx_Bool ctx ''reclaim'';
              syncCache = ctx_Bool ctx ''sync-cache''
          in if reclaim \<and> \<not> thin then (Some (errApp lunReclaimThinMsg), w)
             else
               let name = Get ctx 0;
                   volumePath = Get ctx 1;
                   sizeStr = Get ctx 2
               in if \<not> lunRegex_MatchString name then (Some (errApp lunInvalidNameMsg), w)
                  else
                    case parseSizeGB sizeStr of
                      None \<Rightarrow> (Some (errApp lunInvalidSizeMsg), w)
                    | Some sz \<Rightarrow>
                        (case initAndLogin e w of
                           (Some err, w1) \<Rightarrow> (Some err, w1)
                         | (None, w1) \<Rightarrow>
                             deferLogout e
                               (lunCreate_session e name volumePath sz thin reclaim syncCache w1)))"

definition lunResize_session ::
  "env \<Rightarrow> string \<Rightarrow> uint64 \<Rightarrow> world \<Rightarrow> error option \<times> world"
where
  "lunResize_session e name sz w =
     (case getLunByName e name w of
        (Inl err, w1) \<Rightarrow> (Some err, w1)
      | (Inr lun, w1) \<Rightarrow>
          if sz \<le> lun_Size lun then (Some (errApp lunCannotDecreaseSizeMsg), w1)
          else
            (case getVolumeByPath e (lun_Location lun) w1 of
               (Inl err, w2) \<Rightarrow> (Some err, w2)
             | (Inr volume, w2) \<Rightarrow>
                 (case ParseUint (vol_Free volume) of
                    None \<Rightarrow> (Some (parseUintErr (vol_Free volume)), w2)
                  | Some free \<Rightarrow>
                      if (sz - lun_Size lun) > free
                      then (Some (errApp (volumeNotEnoughSpaceMsg (lun_Location lun)
                                            (bytesToGiB free))), w2)
                      else
                        let spec = \<lparr>lus_Uuid = lun_Uuid lun, lus_NewSize = sz\<rparr>;
                            w3 = invoke w2 (LunUpdate spec)
                        in case cl_LunUpdate (synoClient e) spec of
                             Some err \<Rightarrow> (Some err, w3)
                           | None \<Rightarrow> (None, Fprintln w3 lunResizedMsg))))"

definition lunResizeCmd :: "env \<Rightarrow> Context \<Rightarrow> world \<Rightarrow> error option \<times> world" where
  "lunResizeCmd e ctx w =
     (case verifyArgs 2 ctx of
        Some err \<Rightarrow> (Some err, w)
      | None \<Rightarrow>
          let name = Get ctx 0;
              sizeStr = Get ctx 1
          in case parseSizeGB sizeStr of
               None \<Rightarrow> (Some (errApp lunInvalidSizeMsg), w)
             | Some sz \<Rightarrow>
                 (case initAndLogin e w of
                    (Some err, w1) \<Rightarrow> (Some err, w1)
                  | (None, w1) \<Rightarrow> deferLogout e (lunResize_session e name sz w1)))"

definition lunClone_session ::
  "env \<Rightarrow> string \<Rightarrow> string \<Rightarrow> string \<Rightarrow> world \<Rightarrow> error option \<times> world"
where
  "lunClone_session e srcLunName dstLunName volumePath w =
     (case getLunByName e srcLunName w of
        (Inl err, w1) \<Rightarrow> (Some err, w1)
      | (Inr srcLun, w1) \<Rightarrow>
          (case getVolumeByPath e volumePath w1 of
             (Inl err, w2) \<Rightarrow> (Some err, w2)
           | (Inr volume, w2) \<Rightarrow>
               (case ParseUint (vol_Free volume) of
                  None \<Rightarrow> (Some (parseUintErr (vol_Free volume)), w2)
                | Some free \<Rightarrow>
                    if lun_Size srcLun > free
                    then (Some (errApp (volumeNotEnoughSpaceMsg volumePath (bytesToGiB free))), w2)
                    else
                      let spec = \<lparr>cln_Name = dstLunName, cln_SrcLunUuid = lun_Uuid srcLun,
                                  cln_Location = volumePath\<rparr>;
                          w3 = invoke w2 (LunClone spec)
                      in case cl_LunClone (synoClient e) spec of
                           Inl err \<Rightarrow> (Some err, w3)
                         | Inr uuid \<Rightarrow> (None, Fprintln w3 lunClonedMsg))))"

definition lunCloneCmd :: "env \<Rightarrow> Context \<Rightarrow> world \<Rightarrow> error option \<times> world" where
  "lunCloneCmd e ctx w =
     (case verifyArgs 3 ctx of
        Some err \<Rightarrow> (Some err, w)
      | None \<Rightarrow>
          let srcLunName = Get ctx 0;
              dstLunName = Get ctx 1;
              volumePath = Get ctx 2
          in if \<not> lunRegex_MatchString dstLunName then (Some (errApp lunInvalidNameMsg), w)
             else
               case initAndLogin e w of
                 (Some err, w1) \<Rightarrow> (Some err, w1)
               | (None, w1) \<Rightarrow>
                   deferLogout e (lunClone_session e srcLunName dstLunName volumePath w1))"

text \<open>The two nested loops of \<^verbatim>\<open>lun delete\<close>: one entry for each target that maps the
  LUN (the inner loop breaks at the first mapping that matches), in the order of the
  target list.\<close>

definition mappedTargetsOf :: "LunInfo \<Rightarrow> TargetInfo list \<Rightarrow> string list" where
  "mappedTargetsOf lun targets =
     map (\<lambda>target. if length (tgt_ConnectedSessions target) > 0
                    then tgt_Name target @ '' (connected)'' else tgt_Name target)
         (filter (\<lambda>target. list_ex (\<lambda>mappedLun. lun_Uuid lun = ml_LunUuid mappedLun)
                               (tgt_MappedLuns target))
                 targets)"

definition lunDelete_session ::
  "env \<Rightarrow> string \<Rightarrow> bool \<Rightarrow> world \<Rightarrow> error option \<times> world"
where
  "lunDelete_session e name skip w =
     (case getLunByName e name w of
        (Inl err, w1) \<Rightarrow> (Some err, w1)
      | (Inr lun, w1) \<Rightarrow>
          let delete = (\<lambda>w'.
                let w'' = invoke w' (LunDelete (lun_Uuid lun))
                in case cl_LunDelete (synoClient e) (lun_Uuid lun) of
                     Some err \<Rightarrow> (Some err, w'')
                   | None \<Rightarrow> (None, Fprintln w'' lunDeletedMsg))
          in if \<not> skip
             then
               (let w2 = invoke w1 TargetList
                in case cl_TargetList (synoClient e) of
                     Inl err \<Rightarrow> (Some err, w2)
                   | Inr targets \<Rightarrow>
                       let mappedTargets = mappedTargetsOf lun targets;
                           w3 = Fprintln w2 ''Are you sure you want to delete this lun?'';
                           w4 = (if length mappedTargets > 0
                                 then Fprint w3 (''It is mapped to the targets: '' @
                                                 Join mappedTargets '', '' @ nl)
                                 else w3);
                           w5 = Fprint w4 (''Enter the lun name ('' @ name @ '') to continue: '');
                           verify = scanLine (inp e)
                       in if name \<noteq> verify then (None, Fprintln w5 ''Cancelled'')
                          else delete w5)
             else delete w1)"

definition lunDeleteCmd :: "env \<Rightarrow> Context \<Rightarrow> world \<Rightarrow> error option \<times> world" where
  "lunDeleteCmd e ctx w =
     (case verifyArgs 1 ctx of
        Some err \<Rightarrow> (Some err, w)
      | None \<Rightarrow>
          let skip = ctx_Bool ctx ''skip-verify'';
              name = Get ctx 0
          in case initAndLogin e w of
               (Some err, w1) \<Rightarrow> (Some err, w1)
             | (None, w1) \<Rightarrow> deferLogout e (lunDelete_session e name skip w1))"

definition targetCreate_session ::
  "env \<Rightarrow> string \<Rightarrow> string \<Rightarrow> world \<Rightarrow> error option \<times> world"
where
  "targetCreate_session e name iqn w =
     (let spec = \<lparr>tcs_Name = name, tcs_Iqn = iqn\<rparr>;
          w1 = invoke w (TargetCreate spec)
      in case cl_TargetCreate (synoClient e) spec of
           Inl err \<Rightarrow> (Some err, w1)
         | Inr uuid \<Rightarrow> (None, Fprintln w1 targetCreatedMsg))"

definition targetCreateCmd :: "env \<Rightarrow> Context \<Rightarrow> world \<Rightarrow> error option \<times> world" where
  "targetCreateCmd e ctx w =
     (case verifyArgs 2 ctx of
        Some err \<Rightarrow> (Some err, w)
      | None \<Rightarrow>
          let name = Get ctx 0;
              iqn = Get ctx 1
          in case initAndLogin e w of
               (Some err, w1) \<Rightarrow> (Some err, w1)
             | (None, w1) \<Rightarrow> deferLogout e (targetCreate_session e name iqn w1))"

definition targetDelete_session ::
  "env \<Rightarrow> string \<Rightarrow> bool \<Rightarrow> bool \<Rightarrow> world \<Rightarrow> error option \<times> world"
where
  "targetDelete_session e name force skip w =
     (case getTargetByName e name w of
        (Inl err, w1) \<Rightarrow> (Some err, w1)
      | (Inr target, w1) \<Rightarrow>
          let delete = (\<lambda>w'.
                let w'' = invoke w' (TargetDelete (Itoa (tgt_TargetId target)))
                in case cl_TargetDelete (synoClient e) (Itoa (tgt_TargetId target)) of
                     Some err \<Rightarrow> (Some err, w'')
                   | None \<Rightarrow> (None, Fprintln w'' targetDeletedMsg));
              verified = (\<lambda>w2.
                if \<not> skip
                then
                  (let w3 = Fprintln w2 ''Are you sure you want to delete this target?'';
                       w4 = Fprint w3 (''Enter the target name ('' @ name @ '') to continue: '');
                       verify = scanLine (inp e)
                   in if name \<noteq> verify then (None, Fprintln w4 ''Cancelled'')
                      else delete w4)
                else delete w2)
          in if length (tgt_ConnectedSessions target) > 0
             then (if force then verified (Fprintln w1 targetForceDeleteMsg)
                   else (None, Fprintln w1 targetActiveSessionMsg))
             else verified w1)"

definition targetDeleteCmd :: "env \<Rightarrow> Context \<Rightarrow> world \<Rightarrow> error option \<times> world" where
  "targetDeleteCmd e ctx w =
     (case verifyArgs 1 ctx of
        Some err \<Rightarrow> (Some err, w)
      | None \<Rightarrow>
          let force = ctx_Bool ctx ''force'';
              skip = ctx_Bool ctx ''skip-verify'';
              name = Get ctx 0
          in case initAndLogin e w of
               (Some err, w1) \<Rightarrow> (Some err, w1)
             | (None, w1) \<Rightarrow> deferLogout e (targetDelete_session e name force skip w1))"

text \<open>
  \<^verbatim>\<open>main\<close>, given what \<^verbatim>\<open>app.Run\<close> returned: the exit status of the process and the
  world after the error line, if any, is written.
\<close>

definition main :: "error option \<times> world \<Rightarrow> int \<times> world" where
  "main r =
     (case fst r of
        None \<Rightarrow> (0, snd r)
      | Some (errApp s) \<Rightarrow> (1, Fprint (snd r) (''Error: '' @ s @ nl))
      | Some (otherErr s) \<Rightarrow> (1, Fprint (snd r) (''Unknown error: '' @ s @ nl)))"

subsection \<open>Humanizing a byte count\<close>

text \<open>
  \<^verbatim>\<open>readableByteSize\<close> computes in \<^verbatim>\<open>float64\<close>. The conversion \<^verbatim>\<open>float64(size)\<close> is exact
  integer arithmetic: the value rounded to 53 significant bits, to the nearest, a tie to
  the even significand. \<open>droppedBits n\<close> is the number of low bits that do not fit.
\<close>

function droppedBits :: "nat \<Rightarrow> nat" where
  "droppedBits n = (if n < 2 ^ 53 then 0 else Suc (droppedBits (n div 2)))"
  by pat_completeness auto
termination
  by (relation "measure id") auto

declare droppedBits.simps [simp del]

definition roundToFloat64 :: "nat \<Rightarrow> nat" where
  "roundToFloat64 n =
     (let e = droppedBits n;
          q = n div 2 ^ e;
          r = n mod 2 ^ e
      in if 2 ^ e < 2 * r \<or> (2 * r = 2 ^ e \<and> odd q) then (q + 1) * 2 ^ e else q * 2 ^ e)"

definition float64 :: "uint64 \<Rightarrow> real" where
  "float64 sz = real (roundToFloat64 (unat sz))"

text \<open>\<^verbatim>\<open>int(x)\<close> of a \<^verbatim>\<open>float64\<close> within the range of \<^verbatim>\<open>int\<close>: the fraction is discarded.\<close>

definition goInt :: "real \<Rightarrow> int" where
  "goInt x = (if x < 0 then \<lceil>x\<rceil> else \<lfloor>x\<rfloor>)"

definition units :: "string list" where
  "units = [''B'', ''KiB'', ''MiB'', ''GiB'', ''TiB'', ''PiB'', ''EiB'']"

text \<open>An index outside a slice is a run-time panic.\<close>

datatype panic = IndexOutOfRange

text \<open>
  The functions of the \<^verbatim>\<open>math\<close> and \<^verbatim>\<open>fmt\<close> packages are parameters:
  \<open>logQuotient fsize\<close> is the \<^verbatim>\<open>float64\<close> that \<^verbatim>\<open>math.Log(fsize) / math.Log(1024)\<close> evaluates
  to, and \<open>sprintfVal fsize exp\<close> is the text that \<^verbatim>\<open>%.2f\<close> gives for
  \<^verbatim>\<open>fsize / math.Pow(1024, float64(exp))\<close>. Lines 792 to 794 read \<^verbatim>\<open>fsize\<close> only,
  never \<^verbatim>\<open>size\<close>.
\<close>

definition readableByteSize ::
  "(real \<Rightarrow> real) \<Rightarrow> (real \<Rightarrow> int \<Rightarrow> string) \<Rightarrow> uint64 \<Rightarrow> panic + string"
where
  "readableByteSize logQuotient sprintfVal sz =
     (let fsize = float64 sz
      in if sz < 1 then Inr ''0.00 B''
         else
           let exp = goInt (logQuotient fsize)
           in if exp < 0 \<or> int (length units) \<le> exp then Inl IndexOutOfRange
              else Inr (sprintfVal fsize exp @ '' '' @ units ! nat exp))"

subsection \<open>The fixtures of the test suite\<close>

definition vol1 :: VolInfo where
  "vol1 = \<lparr>vol_Path = ''/vol1'', vol_Status = ''normal'', vol_FsType = ''ext4'',
            vol_Size = ''10737418240'', vol_Free = ''5368709120''\<rparr>"

definition vol2 :: VolInfo where
  "vol2 = \<lparr>vol_Path = ''/vol2'', vol_Status = ''degraded'', vol_FsType = ''btrfs'',
            vol_Size = ''5368709120'', vol_Free = ''5368709120''\<rparr>"

definition lun1 :: LunInfo where
  "lun1 = \<lparr>lun_Name = ''lun1'', lun_Uuid = ''c0416d61-e668-4fd9-86d7-7139c4fabd1d'',
            lun_LunType = 3, lun_Location = ''/vol1'', lun_Size = 5 * gb, lun_Used = 3 * gb,
            lun_Status = ''normal''\<rparr>"

definition lun2 :: LunInfo where
  "lun2 = \<lparr>lun_Name = ''lun2'', lun_Uuid = ''2391bb3d-82d9-4a64-b197-5faae2f8d95a'',
            lun_LunType = 263, lun_Location = ''/vol2'', lun_Size = 5 * gb, lun_Used = 0,
            lun_Status = ''degraded''\<rparr>"

definition target1 :: TargetInfo where
  "target1 = \<lparr>tgt_Name = ''target1'', tgt_Iqn = ''iqn.2000-01.com.synology:target1'',
               tgt_MaxSessions = 2,
               tgt_MappedLuns =
                 [\<lparr>ml_LunUuid = ''c0416d61-e668-4fd9-86d7-7139c4fabd1d'', ml_MappingIndex = 0\<rparr>,
                  \<lparr>ml_LunUuid = ''2391bb3d-82d9-4a64-b197-5faae2f8d95a'', ml_MappingIndex = 1\<rparr>],
               tgt_ConnectedSessions =
                 [\<lparr>cs_Iqn = ''iqn.1993-08.org.debian:client'', cs_Ip = ''192.168.1.10''\<rparr>],
               tgt_TargetId = 1\<rparr>"

definition target2 :: TargetInfo where
  "target2 = \<lparr>tgt_Name = ''target2'', tgt_Iqn = ''iqn.2000-01.com.synology:target2'',
               tgt_MaxSessions = 1,
               tgt_MappedLuns =
                 [\<lparr>ml_LunUuid = ''c0416d61-e668-4fd9-86d7-7139c4fabd1d'', ml_MappingIndex = 0\<rparr>],
               tgt_ConnectedSessions = [],
               tgt_TargetId = 2\<rparr>"

text \<open>A client that lists the fixtures and accepts every request, and the surroundings of
  \<^verbatim>\<open>validCommand\<close> (host, port, user and password given) with \<open>input\<close> waiting on
  \<^verbatim>\<open>in\<close>.\<close>

definition mockClient :: Client where
  "mockClient =
     \<lparr>cl_Login = None, cl_Logout = None,
      cl_VolumeList = Inr [vol1, vol2],
      cl_LunList = Inr [lun1, lun2],
      cl_LunCreate = (\<lambda>spec. Inr ''uuid''),
      cl_LunUpdate = (\<lambda>spec. None),
      cl_LunClone = (\<lambda>spec. Inr ''uuid''),
      cl_LunDelete = (\<lambda>lunUuid. None),
      cl_LunMapTarget = (\<lambda>targetIds lunUuid. None),
      cl_TargetList = Inr [target1, target2],
      cl_TargetCreate = (\<lambda>spec. Inr ''uuid''),
      cl_TargetDelete = (\<lambda>targetName. None)\<rparr>"

definition validCommand :: "string \<Rightarrow> env" where
  "validCommand input =
     \<lparr>host = ''host'', port = 5000, user = ''user'', pass = ''pass'', https = False,
      inp = input, isTerminal = False, readPassword = Inr [], synoClient = mockClient\<rparr>"

definition start :: world where
  "start = \<lparr>out = [], calls = []\<rparr>"

definition loggedIn :: world where
  "loggedIn = \<lparr>out = [], calls = [Init ''host'' 5000 ''user'' ''pass'' False, Login]\<rparr>"

subsection \<open>Reading a run\<close>

text \<open>What a command has called on the client, and written to \<^verbatim>\<open>out\<close>, since the world
  \<open>w\<close>; and the notice the deferred \<open>logout\<close> writes when the client's logout fails.\<close>

definition remoteCalls :: "world \<Rightarrow> error option \<times> world \<Rightarrow> call list" where
  "remoteCalls w r = drop (length (calls w)) (calls (snd r))"

definition printed :: "world \<Rightarrow> error option \<times> world \<Rightarrow> string" where
  "printed w r = drop (length (out w)) (out (snd r))"

definition logoutNotice :: "env \<Rightarrow> string" where
  "logoutNotice e =
     (case cl_Logout (synoClient e) of
        Some err \<Rightarrow> ''Error: failed to logout of DSM: '' @ Error err
      | None \<Rightarrow> [])"

subsection \<open>The size argument in the specification's words\<close>

text \<open>
  For the comparison with \<open>parseSizeGB\<close>. The specification accepts a size string that
  "parses as a positive integer number of gigabytes" and converts it "to bytes as
  gigabytes * 2^30": a non-empty string of decimal digits, read in positional notation
  (\<open>spec_digitsValue\<close> takes the least significant digit first), with a positive value.
\<close>

fun spec_digitsValue :: "string \<Rightarrow> nat" where
  "spec_digitsValue [] = 0"
| "spec_digitsValue (c # cs) = digitVal c + 10 * spec_digitsValue cs"

definition spec_gigabytes :: "string \<Rightarrow> nat option" where
  "spec_gigabytes s =
     (if s \<noteq> [] \<and> list_all isDigit s \<and> 0 < spec_digitsValue (rev s)
      then Some (spec_digitsValue (rev s)) else None)"

definition spec_bytes :: "nat \<Rightarrow> nat" where
  "spec_bytes gigabytes = gigabytes * 2 ^ 30"

subsection \<open>The humanized byte count in the specification's words\<close>

text \<open>
  For the comparison with \<open>readableByteSize\<close>. The specification chooses "the largest unit
  (B, KiB, MiB, ... EiB, base-1024) such that the scaled value is at least 1", formats the
  scaled value "with two decimal places", and renders zero bytes as \<^verbatim>\<open>0.00 B\<close>. Here the
  scaled value is the exact quotient, rounded to the nearest hundredth.
\<close>

definition spec_unitIndex :: "nat \<Rightarrow> nat" where
  "spec_unitIndex n = last (0 # filter (\<lambda>k. 1024 ^ k \<le> n) [0, 1, 2, 3, 4, 5, 6])"

definition spec_hundredths :: "nat \<Rightarrow> nat \<Rightarrow> nat" where
  "spec_hundredths n k = (n * 100 + 1024 ^ k div 2) div 1024 ^ k"

definition spec_readableByteSize :: "nat \<Rightarrow> string" where
  "spec_readableByteSize n =
     (let k = spec_unitIndex n;
          h = spec_hundredths n k
      in natDigits (h div 100) @ ''.'' @ [digitChar (h mod 100 div 10), digitChar (h mod 10)] @
         '' '' @ units ! k)"

section \<open>Properties\<close>

subsection \<open>Unfolding rules and facts about the helpers\<close>

lemmas io_defs = Fprint_def Fprintln_def invoke_def nl_def

lemmas ctx_defs = ctx_Bool_def NArg_def Get_def verifyArgs_def

lemmas num_defs = Atoi_def ParseUint_def isDigit_def decimalVal_def digitVal_def
  parseSizeGB_def gb_def bytesToGiB_def Itoa_def natDigits.simps digitChar_def

lemmas msg_defs = missingGlobalArgsMsg_def notEnoughArgsMsg_def lunReclaimThinMsg_def
  lunInvalidNameMsg_def lunInvalidSizeMsg_def volumeNotEnoughSpaceMsg_def
  lunCannotDecreaseSizeMsg_def targetActiveSessionMsg_def targetForceDeleteMsg_def
  volumeNotFoundMsg_def lunNotFoundMsg_def targetNotFoundMsg_def lunCreatedMsg_def
  lunResizedMsg_def lunClonedMsg_def lunDeletedMsg_def targetCreatedMsg_def
  targetDeletedMsg_def

lemmas session_defs = initAndLogin_def readPass_def logout_def deferLogout_def
  getVolumeByPath_def getLunByName_def getTargetByName_def

lemmas fixture_defs = vol1_def vol2_def lun1_def lun2_def target1_def target2_def
  mockClient_def validCommand_def start_def loggedIn_def

lemmas run_defs = remoteCalls_def printed_def logoutNotice_def main_def

lemma logout_calls: "calls (logout e w) = calls w @ [Logout]"
  by (simp add: logout_def invoke_def Fprint_def Let_def split: option.splits)

lemma logout_out: "out (logout e w) = out w @ logoutNotice e"
  by (simp add: logout_def logoutNotice_def invoke_def Fprint_def Let_def split: option.splits)

lemma getVolumeByPath_found:
  assumes "cl_VolumeList (synoClient e) = Inr volumes"
    and "find (\<lambda>volume. path = vol_Path volume) volumes = Some volume"
  shows "getVolumeByPath e path w = (Inr volume, invoke w VolumeList)"
  using assms by (simp add: getVolumeByPath_def)

lemma getLunByName_found:
  assumes "cl_LunList (synoClient e) = Inr luns"
    and "find (\<lambda>lun. name = lun_Name lun) luns = Some lun"
  shows "getLunByName e name w = (Inr lun, invoke w LunList)"
  using assms by (simp add: getLunByName_def)

lemma getTargetByName_found:
  assumes "cl_TargetList (synoClient e) = Inr targets"
    and "find (\<lambda>target. name = tgt_Name target) targets = Some target"
  shows "getTargetByName e name w = (Inr target, invoke w TargetList)"
  using assms by (simp add: getTargetByName_def)

subsection \<open>Facts about the fixtures\<close>

lemma login_validCommand: "initAndLogin (validCommand input) start = (None, loggedIn)"
  by (simp add: session_defs fixture_defs io_defs)

lemma client_validCommand:
  "cl_TargetList (synoClient (validCommand input)) = Inr [target1, target2]"
  "cl_LunList (synoClient (validCommand input)) = Inr [lun1, lun2]"
  "cl_VolumeList (synoClient (validCommand input)) = Inr [vol1, vol2]"
  by (simp_all add: validCommand_def mockClient_def)

lemma inp_validCommand: "inp (validCommand input) = input"
  by (simp add: validCommand_def)

lemma logoutNotice_validCommand: "logoutNotice (validCommand input) = []"
  by (simp add: logoutNotice_def validCommand_def mockClient_def)

lemma lunDelete_validCommand: "cl_LunDelete (synoClient (validCommand input)) uuid = None"
  by (simp add: validCommand_def mockClient_def)

lemma find_fixtures:
  "find (\<lambda>target. ''target1'' = tgt_Name target) [target1, target2] = Some target1"
  "find (\<lambda>target. ''target2'' = tgt_Name target) [target1, target2] = Some target2"
  "find (\<lambda>lun. ''lun1'' = lun_Name lun) [lun1, lun2] = Some lun1"
  "find (\<lambda>volume. ''/vol1'' = vol_Path volume) [vol1, vol2] = Some vol1"
  by (simp_all add: fixture_defs)

lemma mappedTargetsOf_lun1:
  "mappedTargetsOf lun1 [target1, target2] = [''target1 (connected)'', ''target2'']"
  by (simp add: mappedTargetsOf_def fixture_defs)

subsection \<open>Creating a LUN\<close>

text \<open>
  C8. A \<^verbatim>\<open>lun create\<close> with three arguments, \<^verbatim>\<open>--reclaim\<close> set and \<^verbatim>\<open>--thin\<close> not set
  returns the error \<open>lunReclaimThinMsg\<close>, whatever the arguments, the other flag, the
  surroundings and the client are. The world is the one the command started in: nothing
  was called on the client (no \<open>Init\<close>, no \<open>Login\<close>) and nothing was printed; \<open>main\<close>
  then prints the error line and exits with status 1.
\<close>

theorem lunCreate_reclaim_requires_thin:
  assumes "length (args ctx) = 3"
    and "ctx_Bool ctx ''reclaim''"
    and "\<not> ctx_Bool ctx ''thin''"
  shows "lunCreateCmd e ctx w = (Some (errApp lunReclaimThinMsg), w)
       \<and> remoteCalls w (lunCreateCmd e ctx w) = []
       \<and> printed w (lunCreateCmd e ctx w) = []
       \<and> main (lunCreateCmd e ctx w) = (1, Fprint w (''Error: '' @ lunReclaimThinMsg @ nl))"
  using assms
  by (simp add: lunCreateCmd_def verifyArgs_def NArg_def remoteCalls_def printed_def main_def)

theorem lunCreate_reclaim_requires_thin_witness:
  "lunCreateCmd (validCommand [])
     \<lparr>flagsSet = [''reclaim'', ''sync-cache''], args = [''lun_1'', ''/vol1'', ''abc'']\<rparr> start
     = (Some (errApp ''--reclaim can only be used with --thin''), start)
   \<and> main (lunCreateCmd (validCommand [])
        \<lparr>flagsSet = [''reclaim'', ''sync-cache''], args = [''lun_1'', ''/vol1'', ''abc'']\<rparr> start)
     = (1, \<lparr>out = ''Error: --reclaim can only be used with --thin'' @ nl, calls = []\<rparr>)"
proof -
  let ?ctx = "\<lparr>flagsSet = [''reclaim'', ''sync-cache''], args = [''lun_1'', ''/vol1'', ''abc'']\<rparr>"
  have a: "length (args ?ctx) = 3" by simp
  have r: "ctx_Bool ?ctx ''reclaim''" by (simp add: ctx_Bool_def)
  have t: "\<not> ctx_Bool ?ctx ''thin''" by (simp add: ctx_Bool_def)
  from lunCreate_reclaim_requires_thin [OF a r t, of "validCommand []" start]
  show ?thesis by (simp add: lunReclaimThinMsg_def start_def Fprint_def main_def)
qed

lemma GetLunType_table:
  "GetLunType ''ext4'' False = ''FILE''"
  "GetLunType ''ext4'' True = ''ADV''"
  "GetLunType ''btrfs'' False = ''BLUN_THICK''"
  "GetLunType ''btrfs'' True = ''BLUN''"
  "fsType \<noteq> ''ext4'' \<Longrightarrow> fsType \<noteq> ''btrfs'' \<Longrightarrow> GetLunType fsType thin = []"
  by (simp_all add: GetLunType_def)

lemma bytesToGiB_uint: "bytesToGiB free = uint free div 2 ^ 30"
proof -
  have quot: "uint (free div gb) = uint free div 2 ^ 30"
    by (simp add: uint_div gb_def)
  have "uint free < 2 ^ 64"
    using uint_lt2p [of free] by simp
  then have "uint free div 2 ^ 30 < 2 ^ 63"
    by simp
  moreover have "0 \<le> uint free div 2 ^ 30"
    by (simp add: div_int_pos_iff)
  ultimately have "signed_take_bit 63 (uint free div 2 ^ 30) = uint free div 2 ^ 30"
    by (intro signed_take_bit_int_eq_self) simp_all
  then show ?thesis
    by (simp add: bytesToGiB_def sint_uint quot)
qed

lemma gigabytes_word:
  assumes "0 < N" and "N < 2 ^ 33"
  shows "uint (word_of_int N * gb :: uint64) = N * 2 ^ 30"
    and "sint (word_of_int N * gb :: uint64) = N * 2 ^ 30"
proof -
  have word: "(word_of_int N * gb :: uint64) = word_of_int (N * 2 ^ 30)"
    by (simp add: gb_def)
  from assms have range: "0 \<le> N * 2 ^ 30" "N * 2 ^ 30 < 2 ^ 63"
    by simp_all
  then have wide: "N * 2 ^ 30 < 2 ^ 64"
    by simp
  have "uint (word_of_int (N * 2 ^ 30) :: uint64) = (N * 2 ^ 30) mod 2 ^ LENGTH(64)"
    by (rule uint_word_of_int)
  also from range wide have "\<dots> = N * 2 ^ 30"
    by simp
  finally show "uint (word_of_int N * gb :: uint64) = N * 2 ^ 30"
    by (simp only: word)
  from range have "signed_take_bit 63 (N * 2 ^ 30) = N * 2 ^ 30"
    by (intro signed_take_bit_int_eq_self) simp_all
  moreover have "sint (word_of_int (N * 2 ^ 30) :: uint64) =
      signed_take_bit (LENGTH(64) - 1) (N * 2 ^ 30)"
    by (rule sint_sbintrunc')
  ultimately have "sint (word_of_int (N * 2 ^ 30) :: uint64) = N * 2 ^ 30"
    by simp
  then show "sint (word_of_int N * gb :: uint64) = N * 2 ^ 30"
    by (simp only: word)
qed

lemma lunCreateCmd_loggedIn:
  assumes "args ctx = [name, volumePath, sizeStr]"
    and "\<not> (ctx_Bool ctx ''reclaim'' \<and> \<not> ctx_Bool ctx ''thin'')"
    and "lunRegex_MatchString name"
    and "parseSizeGB sizeStr = Some sz"
    and "initAndLogin e w = (None, w1)"
  shows "lunCreateCmd e ctx w =
      deferLogout e
        (lunCreate_session e name volumePath sz (ctx_Bool ctx ''thin'')
           (ctx_Bool ctx ''reclaim'') (ctx_Bool ctx ''sync-cache'') w1)"
  using assms by (auto simp add: lunCreateCmd_def verifyArgs_def NArg_def Get_def Let_def)

text \<open>
  The end-to-end behaviour of \<^verbatim>\<open>lun create\<close> for a size of \<open>N\<close> gigabytes with
  \<open>0 < N < 2^33\<close>, so that \<open>N * 2^30\<close> fits both \<^verbatim>\<open>uint64\<close> and \<^verbatim>\<open>int64\<close>: against a volume
  that is found and whose free space parses as \<open>free\<close>, the command fails with the
  not-enough-space error (volume path, whole GiB free, rounded down) when
  \<open>N * 2^30\<close> exceeds \<open>free\<close>, and otherwise calls \<open>LunCreate\<close> once, with the name, the
  location, \<open>N * 2^30\<close> bytes, the type of \<open>GetLunType\<close> and the device attributes of the
  flags; if the client accepts the request the success message is printed.
\<close>

lemma lunCreate_within_range:
  assumes "args ctx = [name, volumePath, sizeStr]"
    and "\<not> (ctx_Bool ctx ''reclaim'' \<and> \<not> ctx_Bool ctx ''thin'')"
    and "lunRegex_MatchString name"
    and "Atoi sizeStr = Some N" and "0 < N" and "N < 2 ^ 33"
    and "initAndLogin e w = (None, w1)"
    and "cl_VolumeList (synoClient e) = Inr volumes"
    and "find (\<lambda>volume. volumePath = vol_Path volume) volumes = Some volume"
    and "ParseUint (vol_Free volume) = Some free"
  shows "(uint free < N * 2 ^ 30 \<longrightarrow>
            lunCreateCmd e ctx w =
              (Some (errApp (volumeNotEnoughSpaceMsg volumePath (uint free div 2 ^ 30))),
               logout e (invoke w1 VolumeList)))
       \<and> (N * 2 ^ 30 \<le> uint free \<longrightarrow>
            remoteCalls w1 (lunCreateCmd e ctx w) =
              [VolumeList,
               LunCreate \<lparr>lcs_Name = name, lcs_Location = volumePath, lcs_Size = N * 2 ^ 30,
                          lcs_Type = GetLunType (vol_FsType volume) (ctx_Bool ctx ''thin''),
                          lcs_DevAttribs =
                            (if ctx_Bool ctx ''reclaim'' then [LUN_SPACE_RECLAMATION] else []) @
                            (if ctx_Bool ctx ''sync-cache''
                             then [LUN_FUA_WRITE, LUN_SYNC_CACHE] else [])\<rparr>,
               Logout]
            \<and> (\<forall>uuid. cl_LunCreate (synoClient e)
                  \<lparr>lcs_Name = name, lcs_Location = volumePath, lcs_Size = N * 2 ^ 30,
                   lcs_Type = GetLunType (vol_FsType volume) (ctx_Bool ctx ''thin''),
                   lcs_DevAttribs =
                     (if ctx_Bool ctx ''reclaim'' then [LUN_SPACE_RECLAMATION] else []) @
                     (if ctx_Bool ctx ''sync-cache''
                      then [LUN_FUA_WRITE, LUN_SYNC_CACHE] else [])\<rparr> = Inr uuid \<longrightarrow>
                 fst (lunCreateCmd e ctx w) = None
                 \<and> printed w1 (lunCreateCmd e ctx w) = lunCreatedMsg @ nl @ logoutNotice e))"
proof -
  let ?sz = "word_of_int N * gb :: uint64"
  from assms(4,5) have parsed: "parseSizeGB sizeStr = Some ?sz"
    by (simp add: parseSizeGB_def)
  note cmd = lunCreateCmd_loggedIn [OF assms(1,2,3) parsed assms(7)]
    getVolumeByPath_found [OF assms(8,9)]
  note sz = gigabytes_word [OF assms(5,6)]
  have gt: "(free < ?sz) = (uint free < N * 2 ^ 30)"
    by (simp add: word_less_def sz)
  show ?thesis
    by (simp add: cmd lunCreate_session_def assms(10) gt sz bytesToGiB_uint deferLogout_def
        logout_calls logout_out remoteCalls_def printed_def io_defs Let_def
        split: sum.splits)
qed

text \<open>
  C1. The claim fails on the code for sizes from \<open>2^34\<close> gigabytes on. For
  \<^verbatim>\<open>lun create mylun /vol1 17179869184\<close> against the test suite's \<^verbatim>\<open>/vol1\<close> (ext4, 5 GiB
  free) the claim's \<open>N * 2^30\<close> is \<open>2^64\<close>, more than the free space, so the command should
  fail with the not-enough-space error and never call \<open>LunCreate\<close>. The code computes
  \<^verbatim>\<open>uint64(sizeGB) * gb\<close> in 64 bits, which is 0: the free-space test passes,
  \<open>LunCreate\<close> is called with a size of 0 bytes and the success message is printed.
\<close>

theorem lunCreate_size_wraps_to_zero:
  "lunCreateCmd (validCommand [])
     \<lparr>flagsSet = [], args = [''mylun'', ''/vol1'', ''17179869184'']\<rparr> start =
   (None,
    \<lparr>out = lunCreatedMsg @ nl,
     calls = [Init ''host'' 5000 ''user'' ''pass'' False, Login, VolumeList,
              LunCreate \<lparr>lcs_Name = ''mylun'', lcs_Location = ''/vol1'', lcs_Size = 0,
                         lcs_Type = ''FILE'', lcs_DevAttribs = []\<rparr>,
              Logout]\<rparr>)"
  by (simp add: lunCreateCmd_def lunCreate_session_def lunRegex_MatchString_def
      lunRegexClass_def GetLunType_def session_defs fixture_defs io_defs ctx_defs num_defs
      lunCreatedMsg_def)

subsection \<open>The size argument\<close>

lemma spec_digitsValue_snoc:
  "spec_digitsValue (cs @ [c]) = spec_digitsValue cs + 10 ^ length cs * digitVal c"
  by (induction cs) (simp_all add: algebra_simps)

lemma foldl_decimal:
  "foldl (\<lambda>n c. n * 10 + digitVal c) a s = a * 10 ^ length s + spec_digitsValue (rev s)"
  by (induction s arbitrary: a) (simp_all add: spec_digitsValue_snoc algebra_simps)

lemma decimalVal_spec: "decimalVal s = spec_digitsValue (rev s)"
  by (simp add: decimalVal_def foldl_decimal)

lemma isDigit_not_sign: "isDigit c \<Longrightarrow> c \<noteq> CHR ''-'' \<and> c \<noteq> CHR ''+''"
  by (auto simp add: isDigit_def)

lemma Atoi_digits:
  assumes "body \<noteq> []" and "list_all isDigit body"
  shows "Atoi body = (if decimalVal body < 2 ^ 63 then Some (int (decimalVal body)) else None)"
proof -
  from assms obtain c cs where body: "body = c # cs" and "isDigit c"
    by (cases body) auto
  then have "c \<noteq> CHR ''-''" "c \<noteq> CHR ''+''"
    using isDigit_not_sign by blast+
  with assms body show ?thesis
    by (simp add: Atoi_def Let_def)
qed

lemma Atoi_plus:
  assumes "body \<noteq> []" and "list_all isDigit body"
  shows "Atoi (CHR ''+'' # body) =
           (if decimalVal body < 2 ^ 63 then Some (int (decimalVal body)) else None)"
  using assms by (simp add: Atoi_def Let_def)

lemma Atoi_minus: "Atoi (CHR ''-'' # body) = Some n \<Longrightarrow> n \<le> 0"
  by (auto simp add: Atoi_def Let_def split: if_splits)

lemma Atoi_Some_shape:
  assumes "Atoi s = Some n"
  shows "\<exists>body. (s = body \<or> s = CHR ''+'' # body \<or> s = CHR ''-'' # body)
           \<and> body \<noteq> [] \<and> list_all isDigit body"
proof (cases s)
  case Nil
  with assms show ?thesis by (simp add: Atoi_def)
next
  case (Cons c cs)
  with assms show ?thesis
    by (cases "c = CHR ''-''"; cases "c = CHR ''+''")
       (auto simp add: Atoi_def Let_def split: if_splits)
qed

lemma parseSizeGB_Some_iff:
  "(\<exists>sz. parseSizeGB s = Some sz) =
   (\<exists>body N. (s = body \<or> s = CHR ''+'' # body) \<and> spec_gigabytes body = Some N \<and> N < 2 ^ 63)"
proof
  assume "\<exists>sz. parseSizeGB s = Some sz"
  then obtain n where n: "Atoi s = Some n" and pos: "0 < n"
    by (auto simp add: parseSizeGB_def split: option.splits if_splits)
  from Atoi_Some_shape [OF n] obtain body
    where shape: "s = body \<or> s = CHR ''+'' # body \<or> s = CHR ''-'' # body"
      and body: "body \<noteq> []" "list_all isDigit body"
    by blast
  from n pos have "s \<noteq> CHR ''-'' # body"
    using Atoi_minus by fastforce
  with shape have plain: "s = body \<or> s = CHR ''+'' # body"
    by blast
  with n body have "decimalVal body < 2 ^ 63 \<and> n = int (decimalVal body)"
    by (auto simp add: Atoi_digits Atoi_plus split: if_splits)
  with pos body have "spec_gigabytes body = Some (decimalVal body) \<and> decimalVal body < 2 ^ 63"
    by (simp add: spec_gigabytes_def decimalVal_spec)
  with plain show "\<exists>body N. (s = body \<or> s = CHR ''+'' # body) \<and> spec_gigabytes body = Some N
      \<and> N < 2 ^ 63"
    by blast
next
  assume "\<exists>body N. (s = body \<or> s = CHR ''+'' # body) \<and> spec_gigabytes body = Some N \<and> N < 2 ^ 63"
  then obtain body N where plain: "s = body \<or> s = CHR ''+'' # body"
    and N: "spec_gigabytes body = Some N" and bound: "N < 2 ^ 63"
    by blast
  from N have body: "body \<noteq> []" "list_all isDigit body" and val: "decimalVal body = N" "0 < N"
    by (auto simp add: spec_gigabytes_def decimalVal_spec split: if_splits)
  with plain bound have "Atoi s = Some (int N)"
    by (auto simp add: Atoi_digits Atoi_plus)
  with val show "\<exists>sz. parseSizeGB s = Some sz"
    by (simp add: parseSizeGB_def)
qed

lemma parseSizeGB_exact:
  assumes "s = body \<or> s = CHR ''+'' # body"
    and "spec_gigabytes body = Some N"
    and "N < 2 ^ 34"
  shows "\<exists>sz. parseSizeGB s = Some sz \<and> unat sz = spec_bytes N"
proof -
  from assms(2) have body: "body \<noteq> []" "list_all isDigit body"
    and val: "decimalVal body = N" "0 < N"
    by (auto simp add: spec_gigabytes_def decimalVal_spec split: if_splits)
  from assms(3) have "N < 2 ^ 63"
    by (rule less_le_trans) simp
  with assms(1) body val have "Atoi s = Some (int N)"
    by (auto simp add: Atoi_digits Atoi_plus)
  with val have parsed: "parseSizeGB s = Some (word_of_int (int N) * gb)"
    by (simp add: parseSizeGB_def)
  have word: "(word_of_int (int N) * gb :: uint64) = of_nat (N * 2 ^ 30)"
    by (simp add: gb_def)
  from assms(3) have small: "N * 2 ^ 30 < (2 :: nat) ^ 64"
    by simp
  have "unat (of_nat (N * 2 ^ 30) :: uint64) = (N * 2 ^ 30) mod 2 ^ LENGTH(64)"
    by (rule unat_of_nat)
  also from small have "\<dots> = N * 2 ^ 30"
    by simp
  finally have "unat (word_of_int (int N) * gb :: uint64) = N * 2 ^ 30"
    by (simp only: word)
  with parsed show ?thesis
    by (simp add: spec_bytes_def)
qed

lemma lunCreateCmd_invalid_size:
  assumes "parseSizeGB s = None"
    and "args ctx = [name, volumePath, s]"
    and "\<not> (ctx_Bool ctx ''reclaim'' \<and> \<not> ctx_Bool ctx ''thin'')"
    and "lunRegex_MatchString name"
  shows "lunCreateCmd e ctx w = (Some (errApp lunInvalidSizeMsg), w)"
  using assms by (auto simp add: lunCreateCmd_def verifyArgs_def NArg_def Get_def)

lemma lunResizeCmd_invalid_size:
  assumes "parseSizeGB s = None"
    and "args ctx = [name, s]"
  shows "lunResizeCmd e ctx w = (Some (errApp lunInvalidSizeMsg), w)"
  using assms by (simp add: lunResizeCmd_def verifyArgs_def NArg_def Get_def)

text \<open>
  C7, as it is stated, fails: \<^verbatim>\<open>9223372036854775808\<close> (that is \<open>2^63\<close>) is a positive
  decimal integer in the specification's sense, and the size argument is rejected, since
  \<^verbatim>\<open>strconv.Atoi\<close> reports a range error for a value that does not fit \<^verbatim>\<open>int\<close>.
\<close>

theorem sizeArgument_counterexample:
  "spec_gigabytes ''9223372036854775808'' = Some 9223372036854775808
   \<and> parseSizeGB ''9223372036854775808'' = None"
  by (simp add: spec_gigabytes_def num_defs)

text \<open>
  C7, amended. The size argument is accepted exactly when it is a non-empty string of
  decimal digits, with or without a plus sign in front, whose value \<open>N\<close> is positive and
  below \<open>2^63\<close> (what fits \<^verbatim>\<open>int\<close>). An accepted \<open>N\<close> below \<open>2^34\<close> is converted to exactly
  \<open>N * 2^30\<close> bytes. When the argument is not accepted (non-numeric, zero, negative,
  fractional, or \<open>2^63\<close> and more), \<^verbatim>\<open>lun create\<close> and \<^verbatim>\<open>lun resize\<close> both return the
  invalid-size error in the world they started in. Nothing is said here about the
  bytes computed for \<open>N\<close> from \<open>2^34\<close> on.
\<close>

theorem sizeArgument_amended:
  "((\<exists>sz. parseSizeGB s = Some sz) =
      (\<exists>body N. (s = body \<or> s = CHR ''+'' # body) \<and> spec_gigabytes body = Some N \<and> N < 2 ^ 63))
   \<and> ((s = body \<or> s = CHR ''+'' # body) \<and> spec_gigabytes body = Some N \<and> N < 2 ^ 34 \<longrightarrow>
        (\<exists>sz. parseSizeGB s = Some sz \<and> unat sz = spec_bytes N))
   \<and> (parseSizeGB s = None \<and> args ctx = [name, volumePath, s]
        \<and> \<not> (ctx_Bool ctx ''reclaim'' \<and> \<not> ctx_Bool ctx ''thin'') \<and> lunRegex_MatchString name \<longrightarrow>
        lunCreateCmd e ctx w = (Some (errApp lunInvalidSizeMsg), w))
   \<and> (parseSizeGB s = None \<and> args ctx' = [name', s] \<longrightarrow>
        lunResizeCmd e ctx' w = (Some (errApp lunInvalidSizeMsg), w))"
  using parseSizeGB_Some_iff [of s] parseSizeGB_exact [of s body N]
    lunCreateCmd_invalid_size [of s ctx name volumePath e w]
    lunResizeCmd_invalid_size [of s ctx' name' e w]
  by blast

theorem sizeArgument_amended_witness:
  "(\<exists>sz. parseSizeGB ''+5'' = Some sz \<and> unat sz = spec_bytes 5)
   \<and> spec_bytes 5 = 5368709120
   \<and> lunCreateCmd (validCommand []) \<lparr>flagsSet = [], args = [''lun1'', ''/vol1'', ''2.5'']\<rparr> start
       = (Some (errApp lunInvalidSizeMsg), start)
   \<and> lunResizeCmd (validCommand []) \<lparr>flagsSet = [], args = [''lun1'', ''-5'']\<rparr> start
       = (Some (errApp lunInvalidSizeMsg), start)"
proof -
  have five: "spec_gigabytes ''5'' = Some 5"
    by (simp add: spec_gigabytes_def num_defs)
  have rejected: "parseSizeGB ''2.5'' = None" "parseSizeGB ''-5'' = None"
    by (simp_all add: num_defs)
  have flags: "\<not> (ctx_Bool \<lparr>flagsSet = [], args = [''lun1'', ''/vol1'', ''2.5'']\<rparr> ''reclaim'' \<and>
      \<not> ctx_Bool \<lparr>flagsSet = [], args = [''lun1'', ''/vol1'', ''2.5'']\<rparr> ''thin'')"
    by (simp add: ctx_Bool_def)
  have name: "lunRegex_MatchString ''lun1''"
    by (simp add: lunRegex_MatchString_def lunRegexClass_def)
  have bytes: "spec_bytes 5 = 5368709120"
    by (simp add: spec_bytes_def)
  from sizeArgument_amended [of "''+5''" "''5''" 5 _ _ _ "validCommand []" start]
    sizeArgument_amended [of "''2.5''" _ _
      "\<lparr>flagsSet = [], args = [''lun1'', ''/vol1'', ''2.5'']\<rparr>" "''lun1''" "''/vol1''"
      "validCommand []" start]
    sizeArgument_amended [of "''-5''" _ _ _ _ _ "validCommand []" start
      "\<lparr>flagsSet = [], args = [''lun1'', ''-5'']\<rparr>" "''lun1''"]
  show ?thesis
    using five rejected flags name bytes by simp
qed

subsection \<open>Names\<close>

lemma targetCreateCmd_loggedIn:
  assumes "args ctx = [name, iqn]"
    and "initAndLogin e w = (None, w1)"
  shows "targetCreateCmd e ctx w = deferLogout e (targetCreate_session e name iqn w1)"
  using assms by (simp add: targetCreateCmd_def verifyArgs_def NArg_def Get_def)

text \<open>
  C5, as it is stated, fails for \<^verbatim>\<open>target create\<close>: the name \<^verbatim>\<open>bad_name\<close> does not match
  the expression, and \<^verbatim>\<open>target create bad_name iqn.2000-01.com.synology:target1\<close> logs
  in, calls \<open>TargetCreate\<close> with that name and reports success.
\<close>

theorem targetCreate_name_unchecked:
  "\<not> lunRegex_MatchString ''bad_name''
   \<and> targetCreateCmd (validCommand [])
        \<lparr>flagsSet = [], args = [''bad_name'', ''iqn.2000-01.com.synology:target1'']\<rparr> start =
       (None,
        \<lparr>out = targetCreatedMsg @ nl,
         calls = [Init ''host'' 5000 ''user'' ''pass'' False, Login,
                  TargetCreate \<lparr>tcs_Name = ''bad_name'',
                                tcs_Iqn = ''iqn.2000-01.com.synology:target1''\<rparr>,
                  Logout]\<rparr>)"
  by (simp add: lunRegex_MatchString_def lunRegexClass_def targetCreateCmd_def
      targetCreate_session_def session_defs fixture_defs io_defs ctx_defs num_defs
      targetCreatedMsg_def)

text \<open>
  C5, amended. A name that does not match \<^verbatim>\<open>^[a-zA-Z0-9-]+$\<close> is rejected by
  \<^verbatim>\<open>lun create\<close> (as its name argument) and by \<^verbatim>\<open>lun clone\<close> (as the destination name) with
  an error, in the world the command started in: nothing was called on the client. The
  error is \<open>lunInvalidNameMsg\<close>, except that \<^verbatim>\<open>lun create\<close> tests the reclaim-needs-thin
  rule first and reports that one when it applies. \<^verbatim>\<open>target create\<close> has no name check:
  after a successful login it passes the name to \<open>TargetCreate\<close> as given.
\<close>

theorem lunName_validated:
  assumes "\<not> lunRegex_MatchString name"
  shows "(args ctx = [name, volumePath, sizeStr] \<longrightarrow>
            lunCreateCmd e ctx w =
              (Some (errApp (if ctx_Bool ctx ''reclaim'' \<and> \<not> ctx_Bool ctx ''thin''
                             then lunReclaimThinMsg else lunInvalidNameMsg)), w))
       \<and> (args ctx = [srcLunName, name, volumePath] \<longrightarrow>
            lunCloneCmd e ctx w = (Some (errApp lunInvalidNameMsg), w))
       \<and> (args ctx = [name, iqn] \<and> initAndLogin e w = (None, w1) \<longrightarrow>
            remoteCalls w1 (targetCreateCmd e ctx w) =
              [TargetCreate \<lparr>tcs_Name = name, tcs_Iqn = iqn\<rparr>, Logout])"
proof -
  have create: "lunCreateCmd e ctx w =
      (Some (errApp (if ctx_Bool ctx ''reclaim'' \<and> \<not> ctx_Bool ctx ''thin''
                     then lunReclaimThinMsg else lunInvalidNameMsg)), w)"
    if "args ctx = [name, volumePath, sizeStr]"
    using that assms by (simp add: lunCreateCmd_def verifyArgs_def NArg_def Get_def Let_def)
  have clone: "lunCloneCmd e ctx w = (Some (errApp lunInvalidNameMsg), w)"
    if "args ctx = [srcLunName, name, volumePath]"
    using that assms by (simp add: lunCloneCmd_def verifyArgs_def NArg_def Get_def)
  have target: "remoteCalls w1 (targetCreateCmd e ctx w) =
      [TargetCreate \<lparr>tcs_Name = name, tcs_Iqn = iqn\<rparr>, Logout]"
    if "args ctx = [name, iqn]" and "initAndLogin e w = (None, w1)"
    by (simp add: targetCreateCmd_loggedIn [OF that] targetCreate_session_def deferLogout_def
        logout_calls remoteCalls_def io_defs Let_def split: sum.splits)
  from create clone target show ?thesis
    by blast
qed

theorem lunName_validated_witness:
  "lunCreateCmd (validCommand []) \<lparr>flagsSet = [], args = [''lun_1'', ''/vol1'', ''5'']\<rparr> start =
     (Some (errApp lunInvalidNameMsg), start)
   \<and> lunCreateCmd (validCommand []) \<lparr>flagsSet = [], args = ['' '', ''/vol1'', ''5'']\<rparr> start =
     (Some (errApp lunInvalidNameMsg), start)
   \<and> lunCreateCmd (validCommand []) \<lparr>flagsSet = [], args = [[], ''/vol1'', ''5'']\<rparr> start =
     (Some (errApp lunInvalidNameMsg), start)
   \<and> lunCloneCmd (validCommand []) \<lparr>flagsSet = [], args = [''lun1'', ''lun_2'', ''/vol1'']\<rparr> start =
     (Some (errApp lunInvalidNameMsg), start)
   \<and> remoteCalls loggedIn
        (targetCreateCmd (validCommand []) \<lparr>flagsSet = [], args = [''target_1'', ''iqn'']\<rparr> start) =
     [TargetCreate \<lparr>tcs_Name = ''target_1'', tcs_Iqn = ''iqn''\<rparr>, Logout]"
proof -
  have bad: "\<not> lunRegex_MatchString ''lun_1''" "\<not> lunRegex_MatchString '' ''"
    "\<not> lunRegex_MatchString []" "\<not> lunRegex_MatchString ''lun_2''"
    "\<not> lunRegex_MatchString ''target_1''"
    by (simp_all add: lunRegex_MatchString_def lunRegexClass_def)
  have flags: "\<not> ctx_Bool \<lparr>flagsSet = [], args = a\<rparr> f" for a f
    by (simp add: ctx_Bool_def)
  from lunName_validated [OF bad(1), of "\<lparr>flagsSet = [], args = [''lun_1'', ''/vol1'', ''5'']\<rparr>"
        "''/vol1''" "''5''" "validCommand []" start]
    lunName_validated [OF bad(2), of "\<lparr>flagsSet = [], args = ['' '', ''/vol1'', ''5'']\<rparr>"
        "''/vol1''" "''5''" "validCommand []" start]
    lunName_validated [OF bad(3), of "\<lparr>flagsSet = [], args = [[], ''/vol1'', ''5'']\<rparr>"
        "''/vol1''" "''5''" "validCommand []" start]
    lunName_validated [OF bad(4), of "\<lparr>flagsSet = [], args = [''lun1'', ''lun_2'', ''/vol1'']\<rparr>"
        _ _ "validCommand []" start "''lun1''" "''/vol1''"]
    lunName_validated [OF bad(5), of "\<lparr>flagsSet = [], args = [''target_1'', ''iqn'']\<rparr>"
        _ _ "validCommand []" start _ "''iqn''" loggedIn]
  show ?thesis
    by (simp add: flags login_validCommand)
qed

subsection \<open>Humanizing a byte count\<close>

lemma float64_rounds_up: "float64 1152921504606846975 = float64 1152921504606846976"
  by (simp add: float64_def roundToFloat64_def droppedBits.simps Let_def)

text \<open>The specification's rendering gives the strings the specification lists.\<close>

lemma spec_readableByteSize_examples:
  "spec_readableByteSize 0 = ''0.00 B''"
  "spec_readableByteSize 1024 = ''1.00 KiB''"
  "spec_readableByteSize (1024 ^ 6) = ''1.00 EiB''"
  "spec_readableByteSize 123456 = ''120.56 KiB''"
  by (simp_all add: spec_readableByteSize_def spec_unitIndex_def spec_hundredths_def units_def
      natDigits.simps digitChar_def Let_def)

text \<open>
  C6. The claim fails on the code at \<open>2^60 - 1\<close> bytes (1152921504606846975). The largest
  unit for which the scaled value is at least 1 is PiB, since \<open>(2^60 - 1) / 1024^6 < 1\<close>,
  and the value to two decimals is \<^verbatim>\<open>1024.00 PiB\<close>; for \<open>2^60\<close> bytes it is \<^verbatim>\<open>1.00 EiB\<close>.
  The code converts the size to \<^verbatim>\<open>float64\<close> first, which rounds \<open>2^60 - 1\<close> to \<open>2^60\<close>, and
  reads only the converted value afterwards: whatever \<^verbatim>\<open>math.Log\<close>, \<^verbatim>\<open>math.Pow\<close> and
  \<^verbatim>\<open>%.2f\<close> compute, the two sizes get the same string.
\<close>

theorem readableByteSize_rounds_size:
  "readableByteSize logQuotient sprintfVal 1152921504606846975 =
     readableByteSize logQuotient sprintfVal 1152921504606846976
   \<and> spec_readableByteSize 1152921504606846975 = ''1024.00 PiB''
   \<and> spec_readableByteSize 1152921504606846976 = ''1.00 EiB''"
proof -
  have code: "readableByteSize logQuotient sprintfVal 1152921504606846975 =
     readableByteSize logQuotient sprintfVal 1152921504606846976"
    by (simp add: readableByteSize_def float64_rounds_up)
  have spec: "spec_readableByteSize 1152921504606846975 = ''1024.00 PiB''"
    "spec_readableByteSize 1152921504606846976 = ''1.00 EiB''"
    by (simp_all add: spec_readableByteSize_def spec_unitIndex_def spec_hundredths_def units_def
        natDigits.simps digitChar_def Let_def)
  from code spec show ?thesis
    by simp
qed

lemma droppedBits_le: "n < 2 ^ (53 + k) \<Longrightarrow> droppedBits n \<le> k"
proof (induction k arbitrary: n)
  case 0
  then show ?case by (simp add: droppedBits.simps)
next
  case (Suc k)
  show ?case
  proof (cases "n < 2 ^ 53")
    case True
    then show ?thesis by (simp add: droppedBits.simps)
  next
    case False
    from Suc.prems have "n < 2 * 2 ^ (53 + k)"
      unfolding add_Suc_right power_Suc .
    then have "n div 2 < 2 ^ (53 + k)"
      by simp
    then have "droppedBits (n div 2) \<le> k"
      by (rule Suc.IH)
    with False show ?thesis
      by (subst droppedBits.simps) simp
  qed
qed

lemma droppedBits_quotient_ge: "2 ^ 53 \<le> n \<Longrightarrow> 2 ^ 52 \<le> n div 2 ^ droppedBits n"
proof (induction n rule: droppedBits.induct)
  case (1 n)
  from "1.prems" have big: "\<not> n < 2 ^ 53"
    by simp
  then have unfold: "droppedBits n = Suc (droppedBits (n div 2))"
    by (subst droppedBits.simps) simp
  have quot: "n div 2 ^ Suc (droppedBits (n div 2)) = n div 2 div 2 ^ droppedBits (n div 2)"
    by (simp add: div_mult2_eq)
  show ?case
  proof (cases "n div 2 < 2 ^ 53")
    case True
    then have "droppedBits (n div 2) = 0"
      by (simp add: droppedBits.simps)
    with "1.prems" show ?thesis
      by (simp add: unfold)
  next
    case False
    then have "2 ^ 53 \<le> n div 2"
      by simp
    with big have "2 ^ 52 \<le> n div 2 div 2 ^ droppedBits (n div 2)"
      by (rule "1.IH")
    then show ?thesis
      by (simp only: unfold quot)
  qed
qed

lemma roundToFloat64_range:
  assumes "1 \<le> n" and "n < 2 ^ 64"
  shows "1 \<le> roundToFloat64 n \<and> roundToFloat64 n \<le> 2 ^ 64"
proof -
  define e where "e = droppedBits n"
  define q where "q = n div 2 ^ e"
  from assms(2) have "n < 2 ^ (53 + 11)"
    by simp
  then have e: "e \<le> 11"
    unfolding e_def by (rule droppedBits_le)
  have q_pos: "1 \<le> q"
  proof (cases "n < 2 ^ 53")
    case True
    then have "e = 0"
      by (simp add: e_def droppedBits.simps)
    with assms(1) show ?thesis
      by (simp add: q_def)
  next
    case False
    then have "2 ^ 52 \<le> q"
      unfolding q_def e_def by (intro droppedBits_quotient_ge) simp
    then show ?thesis
      by simp
  qed
  have "(2 :: nat) ^ 64 = 2 ^ (64 - e) * 2 ^ e"
    using e by (simp add: power_add [symmetric])
  with assms(2) have "n < 2 ^ (64 - e) * 2 ^ e"
    by simp
  then have "q < 2 ^ (64 - e)"
    unfolding q_def by (simp add: less_mult_imp_div_less)
  then have "(q + 1) * 2 ^ e \<le> 2 ^ (64 - e) * 2 ^ e"
    by (intro mult_le_mono1) simp
  also have "\<dots> = 2 ^ 64"
    using e by (simp add: power_add [symmetric])
  finally have up: "(q + 1) * 2 ^ e \<le> 2 ^ 64" .
  have down: "q * 2 ^ e \<le> 2 ^ 64"
    by (rule le_trans [OF _ up]) simp
  have "1 \<le> (2 :: nat) ^ e"
    by simp
  with q_pos have "1 * 1 \<le> q * 2 ^ e"
    by (rule mult_le_mono)
  then have low: "1 \<le> q * 2 ^ e"
    by simp
  have "q * 2 ^ e \<le> (q + 1) * 2 ^ e"
    by simp
  with low have low': "1 \<le> (q + 1) * 2 ^ e"
    by (rule le_trans)
  from up down low low' show ?thesis
    by (simp add: roundToFloat64_def Let_def e_def [symmetric] q_def [symmetric])
qed

lemma float64_range:
  assumes "\<not> sz < 1"
  shows "1 \<le> float64 sz \<and> float64 sz \<le> 2 ^ 64"
proof -
  from assms have "1 \<le> unat sz"
    by (simp add: word_less_nat_alt)
  moreover have "unat sz < 2 ^ LENGTH(64)"
    by (rule unsigned_less)
  then have "unat sz < 2 ^ 64"
    by simp
  ultimately have "1 \<le> roundToFloat64 (unat sz) \<and> roundToFloat64 (unat sz) \<le> 2 ^ 64"
    by (rule roundToFloat64_range)
  then have "real 1 \<le> real (roundToFloat64 (unat sz))"
    and "real (roundToFloat64 (unat sz)) \<le> real (2 ^ 64)"
    by (simp_all only: of_nat_le_iff)
  then show ?thesis
    by (simp add: float64_def)
qed

lemma log1024_range:
  fixes x :: real
  assumes "1 \<le> x" and "x \<le> 2 ^ 64"
  shows "0 \<le> ln x / ln 1024 \<and> ln x / ln 1024 \<le> 32 / 5"
proof -
  have ln2: "0 < ln (2 :: real)"
    by simp
  have "ln (1024 :: real) = ln (2 ^ 10)"
    by simp
  also have "\<dots> = 10 * ln 2"
    by (simp only: ln_realpow of_nat_numeral)
  finally have base: "ln (1024 :: real) = 10 * ln 2" .
  from assms have "ln x \<le> ln ((2 :: real) ^ 64)"
    by simp
  also have "\<dots> = 64 * ln 2"
    by (simp only: ln_realpow of_nat_numeral)
  finally have top: "ln x \<le> 64 * ln 2" .
  from assms(1) have bottom: "0 \<le> ln x"
    by simp
  from ln2 bottom have "0 \<le> ln x / (10 * ln 2)"
    by simp
  moreover from ln2 top have "ln x / (10 * ln 2) \<le> 32 / 5"
    by (simp add: field_simps)
  ultimately show ?thesis
    by (simp only: base) 
qed

lemma goInt_range:
  assumes "- (1 / 2) \<le> x" and "x \<le> 69 / 10"
  shows "0 \<le> goInt x \<and> goInt x \<le> 6"
proof (cases "x < 0")
  case True
  with assms have "\<lceil>x\<rceil> = 0"
    by (intro ceiling_unique) simp_all
  with True show ?thesis
    by (simp add: goInt_def)
next
  case False
  then have "0 \<le> \<lfloor>x\<rfloor>"
    by simp
  moreover from assms(2) have "x < 7"
    by simp
  then have "\<lfloor>x\<rfloor> < 7"
    by (simp add: floor_less_iff)
  ultimately show ?thesis
    using False by (simp add: goInt_def)
qed

text \<open>
  C9. Provided the \<^verbatim>\<open>float64\<close> that \<^verbatim>\<open>math.Log(fsize) / math.Log(1024)\<close> evaluates to is
  within 1/2 of the exact quotient \<open>ln fsize / ln 1024\<close> for every \<open>fsize\<close> from 1 to \<open>2^64\<close>
  (an accuracy of Go's \<^verbatim>\<open>math\<close> package that main.go relies on and does not state), the
  unit exponent computed for a size of at least 1 is between 0 and 6, for every
  \<^verbatim>\<open>uint64\<close>: \<^verbatim>\<open>float64(size)\<close> lies between 1 and \<open>2^64\<close>, so the exact quotient lies
  between 0 and 6.4. The index into the unit table is therefore in bounds, and
  \<open>readableByteSize\<close> returns a string for every size, 0 included; it never panics.
\<close>

theorem readableByteSize_index_in_bounds:
  assumes "\<And>x. 1 \<le> x \<Longrightarrow> x \<le> 2 ^ 64 \<Longrightarrow> \<bar>logQuotient x - ln x / ln 1024\<bar> \<le> 1 / 2"
  shows "(\<not> sz < 1 \<longrightarrow>
            0 \<le> goInt (logQuotient (float64 sz)) \<and> goInt (logQuotient (float64 sz)) \<le> 6)
       \<and> (\<exists>s. readableByteSize logQuotient sprintfVal sz = Inr s)"
proof -
  have index: "0 \<le> goInt (logQuotient (float64 sz)) \<and> goInt (logQuotient (float64 sz)) \<le> 6"
    if "\<not> sz < 1"
  proof -
    from that have range: "1 \<le> float64 sz" "float64 sz \<le> 2 ^ 64"
      using float64_range by blast+
    then have "\<bar>logQuotient (float64 sz) - ln (float64 sz) / ln 1024\<bar> \<le> 1 / 2"
      by (rule assms)
    moreover from range have "0 \<le> ln (float64 sz) / ln 1024"
      "ln (float64 sz) / ln 1024 \<le> 32 / 5"
      using log1024_range by blast+
    ultimately have "- (1 / 2) \<le> logQuotient (float64 sz)"
      "logQuotient (float64 sz) \<le> 69 / 10"
      by linarith+
    then show ?thesis
      by (rule goInt_range)
  qed
  then have "\<exists>s. readableByteSize logQuotient sprintfVal sz = Inr s"
    by (cases "sz < 1") (auto simp add: readableByteSize_def Let_def units_def)
  with index show ?thesis
    by blast
qed

theorem readableByteSize_index_in_bounds_witness:
  "0 \<le> goInt (ln (float64 1024) / ln 1024)
   \<and> goInt (ln (float64 1024) / ln 1024) \<le> 6
   \<and> (\<exists>s. readableByteSize (\<lambda>x. ln x / ln 1024) (\<lambda>fsize exp. ''1.00'') 1024 = Inr s)
   \<and> (\<exists>s. readableByteSize (\<lambda>x. ln x / ln 1024) (\<lambda>fsize exp. ''16.00'')
             18446744073709551615 = Inr s)
   \<and> readableByteSize (\<lambda>x. ln x / ln 1024) (\<lambda>fsize exp. ''1.00'') 0 = Inr ''0.00 B''"
proof -
  have accurate: "\<bar>(\<lambda>x. ln x / ln 1024) x - ln x / ln 1024\<bar> \<le> 1 / 2" for x :: real
    by simp
  have big: "\<not> (1024 :: uint64) < 1"
    by simp
  have zero: "readableByteSize (\<lambda>x. ln x / ln 1024) (\<lambda>fsize exp. ''1.00'') 0 = Inr ''0.00 B''"
    by (simp add: readableByteSize_def)
  from readableByteSize_index_in_bounds
      [of "\<lambda>x. ln x / ln 1024" 1024 "\<lambda>fsize exp. ''1.00''", OF accurate]
    readableByteSize_index_in_bounds
      [of "\<lambda>x. ln x / ln 1024" 18446744073709551615 "\<lambda>fsize exp. ''16.00''", OF accurate]
    big zero
  show ?thesis
    by simp
qed

subsection \<open>Resizing a LUN\<close>

lemma lunResizeCmd_loggedIn:
  assumes "args ctx = [name, sizeStr]"
    and "parseSizeGB sizeStr = Some sz"
    and "initAndLogin e w = (None, w1)"
  shows "lunResizeCmd e ctx w = deferLogout e (lunResize_session e name sz w1)"
  using assms by (simp add: lunResizeCmd_def verifyArgs_def NArg_def Get_def)

text \<open>
  The checks of \<^verbatim>\<open>lun resize\<close>, over the 64-bit value \<open>sz\<close> the command computes from its
  size argument (\<open>parseSizeGB\<close>; for an argument below \<open>2^34\<close> gigabytes that is the
  requested size in bytes), for a LUN that is found after a successful login in world
  \<open>w1\<close>. If \<open>sz\<close> is at most the LUN's current size, the command returns the
  cannot-decrease error after \<open>LunList\<close> alone: the volume list is not fetched, so the
  result does not depend on any volume's free space, and \<open>LunUpdate\<close> is not called. If
  \<open>sz\<close> is greater, the LUN's volume is found and its free space parses as \<open>free\<close>, then
  the quantity compared with \<open>free\<close> is the difference of the two sizes (the 64-bit
  subtraction does not wrap): the command returns the not-enough-space error when the
  difference exceeds \<open>free\<close> and calls \<open>LunUpdate\<close> with the LUN's \<^verbatim>\<open>Uuid\<close> and \<open>sz\<close>
  otherwise.
\<close>

lemma lunResize_cannot_decrease:
  assumes "args ctx = [name, sizeStr]"
    and "parseSizeGB sizeStr = Some sz"
    and "initAndLogin e w = (None, w1)"
    and "cl_LunList (synoClient e) = Inr luns"
    and "find (\<lambda>lun. name = lun_Name lun) luns = Some lun"
  shows "(sz \<le> lun_Size lun \<longrightarrow>
          lunResizeCmd e ctx w =
            (Some (errApp lunCannotDecreaseSizeMsg), logout e (invoke w1 LunList))
          \<and> remoteCalls w1 (lunResizeCmd e ctx w) = [LunList, Logout])
       \<and> (lun_Size lun < sz \<and> cl_VolumeList (synoClient e) = Inr volumes
            \<and> find (\<lambda>volume. lun_Location lun = vol_Path volume) volumes = Some volume
            \<and> ParseUint (vol_Free volume) = Some free \<longrightarrow>
          unat (sz - lun_Size lun) = unat sz - unat (lun_Size lun)
          \<and> (if unat free < unat sz - unat (lun_Size lun)
              then lunResizeCmd e ctx w =
                     (Some (errApp (volumeNotEnoughSpaceMsg (lun_Location lun) (bytesToGiB free))),
                      logout e (invoke (invoke w1 LunList) VolumeList))
              else remoteCalls w1 (lunResizeCmd e ctx w) =
                     [LunList, VolumeList,
                      LunUpdate \<lparr>lus_Uuid = lun_Uuid lun, lus_NewSize = sz\<rparr>, Logout]))"
proof -
  note cmd = lunResizeCmd_loggedIn [OF assms(1,2,3)] getLunByName_found [OF assms(4,5)]
  have decrease:
    "lunResizeCmd e ctx w =
       (Some (errApp lunCannotDecreaseSizeMsg), logout e (invoke w1 LunList))
     \<and> remoteCalls w1 (lunResizeCmd e ctx w) = [LunList, Logout]"
    if "sz \<le> lun_Size lun"
    using that
    by (simp add: cmd lunResize_session_def deferLogout_def logout_calls remoteCalls_def
        invoke_def)
  have increase:
    "unat (sz - lun_Size lun) = unat sz - unat (lun_Size lun)
     \<and> (if unat free < unat sz - unat (lun_Size lun)
         then lunResizeCmd e ctx w =
                (Some (errApp (volumeNotEnoughSpaceMsg (lun_Location lun) (bytesToGiB free))),
                 logout e (invoke (invoke w1 LunList) VolumeList))
         else remoteCalls w1 (lunResizeCmd e ctx w) =
                [LunList, VolumeList,
                 LunUpdate \<lparr>lus_Uuid = lun_Uuid lun, lus_NewSize = sz\<rparr>, Logout])"
    if less: "lun_Size lun < sz"
      and vols: "cl_VolumeList (synoClient e) = Inr volumes"
      and vol: "find (\<lambda>volume. lun_Location lun = vol_Path volume) volumes = Some volume"
      and free: "ParseUint (vol_Free volume) = Some free"
  proof -
    from less have not_le: "\<not> sz \<le> lun_Size lun"
      by simp
    from less have sub: "unat (sz - lun_Size lun) = unat sz - unat (lun_Size lun)"
      by (simp add: unat_sub)
    have gt: "(free < sz - lun_Size lun) = (unat free < unat sz - unat (lun_Size lun))"
      by (simp add: word_less_nat_alt sub)
    show ?thesis
      using not_le
      by (simp add: cmd lunResize_session_def getVolumeByPath_found [OF vols vol] free gt sub
          deferLogout_def logout_calls remoteCalls_def invoke_def Fprintln_def Fprint_def
          Let_def split: option.splits)
  qed
  from decrease increase show ?thesis
    by blast
qed

lemma lunResize_cannot_decrease_examples:
  "lunResizeCmd (validCommand []) \<lparr>flagsSet = [], args = [''lun1'', ''5'']\<rparr> start =
     (Some (errApp ''LUN cannot decrease in size''), logout (validCommand []) (invoke loggedIn LunList))
   \<and> remoteCalls loggedIn
        (lunResizeCmd (validCommand []) \<lparr>flagsSet = [], args = [''lun1'', ''5'']\<rparr> start) =
       [LunList, Logout]
   \<and> remoteCalls loggedIn
        (lunResizeCmd (validCommand []) \<lparr>flagsSet = [], args = [''lun1'', ''3'']\<rparr> start) =
       [LunList, Logout]
   \<and> remoteCalls loggedIn
        (lunResizeCmd (validCommand []) \<lparr>flagsSet = [], args = [''lun1'', ''6'']\<rparr> start) =
       [LunList, VolumeList,
        LunUpdate \<lparr>lus_Uuid = ''c0416d61-e668-4fd9-86d7-7139c4fabd1d'', lus_NewSize = 6442450944\<rparr>,
        Logout]
   \<and> lunResizeCmd (validCommand []) \<lparr>flagsSet = [], args = [''lun1'', ''11'']\<rparr> start =
     (Some (errApp ''not enough space, /vol1 has 5 GiB free''),
      logout (validCommand []) (invoke (invoke loggedIn LunList) VolumeList))"
proof -
  have a: "args \<lparr>flagsSet = [], args = [''lun1'', sizeStr]\<rparr> = [''lun1'', sizeStr]" for sizeStr
    by simp
  have sizes: "parseSizeGB ''5'' = Some 5368709120" "parseSizeGB ''3'' = Some 3221225472"
    "parseSizeGB ''6'' = Some 6442450944" "parseSizeGB ''11'' = Some 11811160064"
    by (simp_all add: num_defs)
  have vol: "vol_Path vol1 = ''/vol1''"
    by (simp add: vol1_def)
  have msgs: "lunCannotDecreaseSizeMsg = ''LUN cannot decrease in size''"
    "volumeNotEnoughSpaceMsg ''/vol1'' (bytesToGiB 5368709120) =
       ''not enough space, /vol1 has 5 GiB free''"
    by (simp_all add: msg_defs num_defs)
  have free: "ParseUint (vol_Free vol1) = Some 5368709120"
    by (simp add: vol1_def num_defs)
  have lun: "lun_Size lun1 = 5368709120" "lun_Location lun1 = ''/vol1''"
    "lun_Uuid lun1 = ''c0416d61-e668-4fd9-86d7-7139c4fabd1d''"
    by (simp_all add: lun1_def gb_def)
  note inst = lunResize_cannot_decrease
    [OF a _ login_validCommand client_validCommand(2) find_fixtures(3),
     where volumes = "[vol1, vol2]" and volume = vol1 and free = 5368709120]
  show ?thesis
    using inst [OF sizes(1)] inst [OF sizes(2)] inst [OF sizes(3)] inst [OF sizes(4)]
    by (simp add: lun free client_validCommand msgs vol remoteCalls_def logout_calls invoke_def)
qed

text \<open>
  C4. The claim fails on the code for sizes from \<open>2^34\<close> gigabytes on, where the requested
  size in bytes and the 64-bit value the command computes differ. The test suite's
  \<^verbatim>\<open>lun1\<close> has 5 GiB, on \<^verbatim>\<open>/vol1\<close> with 5 GiB free.
  \<^verbatim>\<open>lun resize lun1 17179869190\<close> requests \<open>2^64\<close> bytes and 6 GiB, more than the current
  size; the required space, the requested size minus the current size, exceeds the free
  space, so the command should fail with the not-enough-space error. The code computes a
  new size of 6 GiB, compares 1 GiB with the free space and calls \<open>LunUpdate\<close> with 6 GiB.
  \<^verbatim>\<open>lun resize lun1 17179869184\<close> requests \<open>2^64\<close> bytes, again more than the current
  size; the code computes 0 and answers that a LUN cannot decrease in size.
\<close>

theorem lunResize_size_wraps:
  "lunResizeCmd (validCommand []) \<lparr>flagsSet = [], args = [''lun1'', ''17179869190'']\<rparr> start =
     (None,
      \<lparr>out = lunResizedMsg @ nl,
       calls = [Init ''host'' 5000 ''user'' ''pass'' False, Login, LunList, VolumeList,
                LunUpdate \<lparr>lus_Uuid = ''c0416d61-e668-4fd9-86d7-7139c4fabd1d'',
                           lus_NewSize = 6442450944\<rparr>,
                Logout]\<rparr>)
   \<and> lunResizeCmd (validCommand []) \<lparr>flagsSet = [], args = [''lun1'', ''17179869184'']\<rparr> start =
     (Some (errApp lunCannotDecreaseSizeMsg),
      \<lparr>out = [],
       calls = [Init ''host'' 5000 ''user'' ''pass'' False, Login, LunList, Logout]\<rparr>)"
  by (simp add: lunResizeCmd_def lunResize_session_def session_defs fixture_defs io_defs
      ctx_defs num_defs lunResizedMsg_def)

subsection \<open>Deleting a LUN\<close>

lemma lunDeleteCmd_loggedIn:
  assumes "args ctx = [name]"
    and "initAndLogin e w = (None, w1)"
  shows "lunDeleteCmd e ctx w =
      deferLogout e (lunDelete_session e name (ctx_Bool ctx ''skip-verify'') w1)"
  using assms by (simp add: lunDeleteCmd_def verifyArgs_def NArg_def Get_def)

text \<open>
  C3. A \<^verbatim>\<open>lun delete\<close> whose LUN is found, after a successful login in world \<open>w1\<close>.
  Without \<^verbatim>\<open>--skip-verify\<close>, once the target list is fetched: if the line read from
  \<^verbatim>\<open>in\<close> is not the LUN's name, the command prints the question, the prompt and
  \<^verbatim>\<open>Cancelled\<close>, returns no error (\<open>main\<close> exits with status 0 and prints nothing more)
  and the client sees \<open>LunList\<close>, \<open>TargetList\<close> and \<open>Logout\<close> only, so no \<open>LunDelete\<close>;
  if the line is the name, \<open>LunDelete\<close> is called with the \<^verbatim>\<open>Uuid\<close> of the LUN found.
  With \<^verbatim>\<open>--skip-verify\<close> the target list is not fetched, no question or prompt is
  printed and \<open>LunDelete\<close> is called with that \<^verbatim>\<open>Uuid\<close>. The line read at the end of
  input is the empty string.
\<close>

theorem lunDelete_confirmation:
  assumes "args ctx = [name]"
    and "initAndLogin e w = (None, w1)"
    and "cl_LunList (synoClient e) = Inr luns"
    and "find (\<lambda>lun. name = lun_Name lun) luns = Some lun"
  shows "(\<not> ctx_Bool ctx ''skip-verify'' \<and> cl_TargetList (synoClient e) = Inr targets
            \<and> scanLine (inp e) \<noteq> name \<longrightarrow>
          fst (lunDeleteCmd e ctx w) = None
          \<and> main (lunDeleteCmd e ctx w) = (0, snd (lunDeleteCmd e ctx w))
          \<and> printed w1 (lunDeleteCmd e ctx w) =
               ''Are you sure you want to delete this lun?'' @ nl @
               (if mappedTargetsOf lun targets = [] then []
                else ''It is mapped to the targets: '' @
                     Join (mappedTargetsOf lun targets) '', '' @ nl) @
               ''Enter the lun name ('' @ name @ '') to continue: '' @
               ''Cancelled'' @ nl @ logoutNotice e
          \<and> remoteCalls w1 (lunDeleteCmd e ctx w) = [LunList, TargetList, Logout])
       \<and> (\<not> ctx_Bool ctx ''skip-verify'' \<and> cl_TargetList (synoClient e) = Inr targets
            \<and> scanLine (inp e) = name \<longrightarrow>
          remoteCalls w1 (lunDeleteCmd e ctx w) =
            [LunList, TargetList, LunDelete (lun_Uuid lun), Logout])
       \<and> (ctx_Bool ctx ''skip-verify'' \<longrightarrow>
          remoteCalls w1 (lunDeleteCmd e ctx w) = [LunList, LunDelete (lun_Uuid lun), Logout]
          \<and> printed w1 (lunDeleteCmd e ctx w) =
               (case cl_LunDelete (synoClient e) (lun_Uuid lun) of
                  None \<Rightarrow> lunDeletedMsg @ nl
                | Some err \<Rightarrow> []) @ logoutNotice e)
       \<and> scanLine [] = []"
proof -
  note cmd = lunDeleteCmd_loggedIn [OF assms(1,2)] getLunByName_found [OF assms(3,4)]
  have cancelled:
    "fst (lunDeleteCmd e ctx w) = None
     \<and> main (lunDeleteCmd e ctx w) = (0, snd (lunDeleteCmd e ctx w))
     \<and> printed w1 (lunDeleteCmd e ctx w) =
          ''Are you sure you want to delete this lun?'' @ nl @
          (if mappedTargetsOf lun targets = [] then []
           else ''It is mapped to the targets: '' @
                Join (mappedTargetsOf lun targets) '', '' @ nl) @
          ''Enter the lun name ('' @ name @ '') to continue: '' @
          ''Cancelled'' @ nl @ logoutNotice e
     \<and> remoteCalls w1 (lunDeleteCmd e ctx w) = [LunList, TargetList, Logout]"
    if "\<not> ctx_Bool ctx ''skip-verify''" and "cl_TargetList (synoClient e) = Inr targets"
      and "scanLine (inp e) \<noteq> name"
  proof -
    from that(3) have ne: "name \<noteq> scanLine (inp e)"
      by blast
    show ?thesis
      unfolding cmd lunDelete_session_def deferLogout_def
      by (simp only: that(1,2) ne Let_def prod.case sum.case if_True if_False not_False_eq_True
            fst_conv snd_conv main_def option.case printed_def remoteCalls_def
            logout_calls logout_out)
         (simp add: io_defs)
  qed
  have confirmed:
    "remoteCalls w1 (lunDeleteCmd e ctx w) =
       [LunList, TargetList, LunDelete (lun_Uuid lun), Logout]"
    if "\<not> ctx_Bool ctx ''skip-verify''" and "cl_TargetList (synoClient e) = Inr targets"
      and "scanLine (inp e) = name"
    unfolding cmd lunDelete_session_def deferLogout_def
    by (simp only: that Let_def prod.case sum.case if_True if_False simp_thms fst_conv snd_conv remoteCalls_def logout_calls)
       (simp add: io_defs split: option.splits)
  have skipped:
    "remoteCalls w1 (lunDeleteCmd e ctx w) = [LunList, LunDelete (lun_Uuid lun), Logout]
     \<and> printed w1 (lunDeleteCmd e ctx w) =
          (case cl_LunDelete (synoClient e) (lun_Uuid lun) of
             None \<Rightarrow> lunDeletedMsg @ nl
           | Some err \<Rightarrow> []) @ logoutNotice e"
    if "ctx_Bool ctx ''skip-verify''"
    unfolding cmd lunDelete_session_def deferLogout_def
    by (simp only: that Let_def prod.case sum.case if_True if_False simp_thms fst_conv snd_conv remoteCalls_def printed_def
          logout_calls logout_out)
       (simp add: io_defs split: option.splits)
  have eof: "scanLine [] = []"
    by (simp add: scanLine_def dropCR_def)
  from cancelled confirmed skipped eof show ?thesis
    by blast
qed

theorem lunDelete_confirmation_witness:
  "fst (lunDeleteCmd (validCommand ''nope'') \<lparr>flagsSet = [], args = [''lun1'']\<rparr> start) = None
   \<and> main (lunDeleteCmd (validCommand ''nope'') \<lparr>flagsSet = [], args = [''lun1'']\<rparr> start) =
       (0, snd (lunDeleteCmd (validCommand ''nope'') \<lparr>flagsSet = [], args = [''lun1'']\<rparr> start))
   \<and> printed loggedIn
         (lunDeleteCmd (validCommand ''nope'') \<lparr>flagsSet = [], args = [''lun1'']\<rparr> start) =
       ''Are you sure you want to delete this lun?'' @ nl @
       ''It is mapped to the targets: target1 (connected), target2'' @ nl @
       ''Enter the lun name (lun1) to continue: Cancelled'' @ nl
   \<and> remoteCalls loggedIn
         (lunDeleteCmd (validCommand ''nope'') \<lparr>flagsSet = [], args = [''lun1'']\<rparr> start) =
       [LunList, TargetList, Logout]
   \<and> remoteCalls loggedIn
         (lunDeleteCmd (validCommand []) \<lparr>flagsSet = [], args = [''lun1'']\<rparr> start) =
       [LunList, TargetList, Logout]
   \<and> remoteCalls loggedIn
         (lunDeleteCmd (validCommand ''lun1'') \<lparr>flagsSet = [], args = [''lun1'']\<rparr> start) =
       [LunList, TargetList, LunDelete ''c0416d61-e668-4fd9-86d7-7139c4fabd1d'', Logout]
   \<and> remoteCalls loggedIn
         (lunDeleteCmd (validCommand ''nope'')
            \<lparr>flagsSet = [''skip-verify''], args = [''lun1'']\<rparr> start) =
       [LunList, LunDelete ''c0416d61-e668-4fd9-86d7-7139c4fabd1d'', Logout]
   \<and> printed loggedIn
         (lunDeleteCmd (validCommand ''nope'')
            \<lparr>flagsSet = [''skip-verify''], args = [''lun1'']\<rparr> start) =
       lunDeletedMsg @ nl"
proof -
  have a: "args \<lparr>flagsSet = flags, args = [''lun1'']\<rparr> = [''lun1'']" for flags
    by simp
  note inst = lunDelete_confirmation
    [OF a login_validCommand client_validCommand(2) find_fixtures(3),
     where targets = "[target1, target2]"]
  have noskip: "\<not> ctx_Bool \<lparr>flagsSet = [], args = [''lun1'']\<rparr> ''skip-verify''"
    and skip: "ctx_Bool \<lparr>flagsSet = [''skip-verify''], args = [''lun1'']\<rparr> ''skip-verify''"
    by (simp_all add: ctx_Bool_def)
  have lines: "scanLine ''nope'' \<noteq> ''lun1''" "scanLine [] \<noteq> ''lun1''"
    "scanLine ''lun1'' = ''lun1''"
    by (simp_all add: scanLine_def dropCR_def)
  have uuid: "lun_Uuid lun1 = ''c0416d61-e668-4fd9-86d7-7139c4fabd1d''"
    by (simp add: lun1_def)
  show ?thesis
    using inst [of "[]" "''nope''"] inst [of "[]" "[]"] inst [of "[]" "''lun1''"]
      inst [of "[''skip-verify'']" "''nope''"]
    by (simp add: noskip skip lines uuid client_validCommand inp_validCommand
        logoutNotice_validCommand lunDelete_validCommand mappedTargetsOf_lun1)
qed

subsection \<open>Deleting a target\<close>

lemma targetDeleteCmd_loggedIn:
  assumes "args ctx = [name]"
    and "initAndLogin e w = (None, w1)"
  shows "targetDeleteCmd e ctx w =
      deferLogout e
        (targetDelete_session e name (ctx_Bool ctx ''force'') (ctx_Bool ctx ''skip-verify'') w1)"
  using assms by (simp add: targetDeleteCmd_def verifyArgs_def NArg_def Get_def)

text \<open>
  C2. A \<^verbatim>\<open>target delete\<close> whose target is found, after a successful login in world
  \<open>w1\<close>: the calls on the client from there on are \<open>TargetList\<close>, then \<open>TargetDelete\<close>
  with the target's id exactly when (the target has no connected session or \<^verbatim>\<open>--force\<close>
  is set) and (\<^verbatim>\<open>--skip-verify\<close> is set or the line read from \<^verbatim>\<open>in\<close> is the target's
  name), then \<open>Logout\<close>. So for a target with connected sessions there is no
  \<open>TargetDelete\<close> without \<^verbatim>\<open>--force\<close>, whatever else is given; with \<^verbatim>\<open>--force\<close> the delete
  still waits for the typed name unless \<^verbatim>\<open>--skip-verify\<close> is set too; \<^verbatim>\<open>--force\<close> decides
  the first condition only and \<^verbatim>\<open>--skip-verify\<close> the second only, in every combination.
\<close>

theorem targetDelete_force_and_skip:
  assumes "args ctx = [name]"
    and "initAndLogin e w = (None, w1)"
    and "cl_TargetList (synoClient e) = Inr targets"
    and "find (\<lambda>target. name = tgt_Name target) targets = Some target"
  shows "remoteCalls w1 (targetDeleteCmd e ctx w) =
           [TargetList] @
           (if (tgt_ConnectedSessions target = [] \<or> ctx_Bool ctx ''force'') \<and>
               (ctx_Bool ctx ''skip-verify'' \<or> scanLine (inp e) = name)
            then [TargetDelete (Itoa (tgt_TargetId target))] else []) @
           [Logout]"
  by (simp add: targetDeleteCmd_loggedIn [OF assms(1,2)] targetDelete_session_def
      getTargetByName_found [OF assms(3,4)] deferLogout_def logout_calls remoteCalls_def
      io_defs Let_def split: option.splits)

theorem targetDelete_force_and_skip_witness:
  "remoteCalls loggedIn (targetDeleteCmd (validCommand ''target1'')
       \<lparr>flagsSet = [], args = [''target1'']\<rparr> start) = [TargetList, Logout]
   \<and> remoteCalls loggedIn (targetDeleteCmd (validCommand ''target1'')
       \<lparr>flagsSet = [''skip-verify''], args = [''target1'']\<rparr> start) = [TargetList, Logout]
   \<and> remoteCalls loggedIn (targetDeleteCmd (validCommand ''target1'')
       \<lparr>flagsSet = [''force''], args = [''target1'']\<rparr> start)
         = [TargetList, TargetDelete ''1'', Logout]
   \<and> remoteCalls loggedIn (targetDeleteCmd (validCommand ''nope'')
       \<lparr>flagsSet = [''force''], args = [''target1'']\<rparr> start) = [TargetList, Logout]
   \<and> remoteCalls loggedIn (targetDeleteCmd (validCommand [])
       \<lparr>flagsSet = [''force'', ''skip-verify''], args = [''target1'']\<rparr> start)
         = [TargetList, TargetDelete ''1'', Logout]
   \<and> remoteCalls loggedIn (targetDeleteCmd (validCommand ''target2'')
       \<lparr>flagsSet = [], args = [''target2'']\<rparr> start)
         = [TargetList, TargetDelete ''2'', Logout]"
proof -
  have run: "remoteCalls loggedIn (targetDeleteCmd (validCommand input)
                 \<lparr>flagsSet = flags, args = [''target1'']\<rparr> start) =
             [TargetList] @
             (if (tgt_ConnectedSessions target1 = [] \<or>
                  ctx_Bool \<lparr>flagsSet = flags, args = [''target1'']\<rparr> ''force'') \<and>
                 (ctx_Bool \<lparr>flagsSet = flags, args = [''target1'']\<rparr> ''skip-verify'' \<or>
                  scanLine (inp (validCommand input)) = ''target1'')
              then [TargetDelete (Itoa (tgt_TargetId target1))] else []) @
             [Logout]" for input flags
    by (rule targetDelete_force_and_skip
          [OF _ login_validCommand client_validCommand(1) find_fixtures(1)]) simp
  have quiet: "remoteCalls loggedIn (targetDeleteCmd (validCommand input)
                 \<lparr>flagsSet = flags, args = [''target2'']\<rparr> start) =
             [TargetList] @
             (if (tgt_ConnectedSessions target2 = [] \<or>
                  ctx_Bool \<lparr>flagsSet = flags, args = [''target2'']\<rparr> ''force'') \<and>
                 (ctx_Bool \<lparr>flagsSet = flags, args = [''target2'']\<rparr> ''skip-verify'' \<or>
                  scanLine (inp (validCommand input)) = ''target2'')
              then [TargetDelete (Itoa (tgt_TargetId target2))] else []) @
             [Logout]" for input flags
    by (rule targetDelete_force_and_skip
          [OF _ login_validCommand client_validCommand(1) find_fixtures(2)]) simp
  show ?thesis
    by (simp add: run quiet ctx_Bool_def scanLine_def dropCR_def inp_validCommand target1_def
        target2_def num_defs)
qed

text \<open>
  C10. When \<^verbatim>\<open>target delete\<close> refuses (the target is found, has connected sessions, and
  \<^verbatim>\<open>--force\<close> is not set), the command returns no error and \<open>main\<close> exits with status 0
  without printing an error line. After the login the command itself prints the
  active-sessions message and nothing else; the deferred \<open>logout\<close> follows, which prints
  its own notice only if the client's logout fails (\<open>logoutNotice\<close>, empty otherwise).
  The client is asked for the target list and logged out, nothing more.
\<close>

theorem targetDelete_refusal_is_success:
  assumes "args ctx = [name]"
    and "initAndLogin e w = (None, w1)"
    and "cl_TargetList (synoClient e) = Inr targets"
    and "find (\<lambda>target. name = tgt_Name target) targets = Some target"
    and "tgt_ConnectedSessions target \<noteq> []"
    and "\<not> ctx_Bool ctx ''force''"
  shows "fst (targetDeleteCmd e ctx w) = None
       \<and> main (targetDeleteCmd e ctx w) = (0, snd (targetDeleteCmd e ctx w))
       \<and> printed w1 (targetDeleteCmd e ctx w) = targetActiveSessionMsg @ nl @ logoutNotice e
       \<and> remoteCalls w1 (targetDeleteCmd e ctx w) = [TargetList, Logout]"
  using assms(5,6)
  by (simp add: targetDeleteCmd_loggedIn [OF assms(1,2)] targetDelete_session_def
      getTargetByName_found [OF assms(3,4)] deferLogout_def logout_calls logout_out
      remoteCalls_def printed_def main_def io_defs Let_def)

theorem targetDelete_refusal_is_success_witness:
  "fst (targetDeleteCmd (validCommand []) \<lparr>flagsSet = [], args = [''target1'']\<rparr> start) = None
   \<and> fst (main (targetDeleteCmd (validCommand []) \<lparr>flagsSet = [], args = [''target1'']\<rparr> start))
       = 0
   \<and> printed loggedIn
        (targetDeleteCmd (validCommand []) \<lparr>flagsSet = [], args = [''target1'']\<rparr> start)
       = targetActiveSessionMsg @ nl
   \<and> remoteCalls loggedIn
        (targetDeleteCmd (validCommand []) \<lparr>flagsSet = [], args = [''target1'']\<rparr> start)
       = [TargetList, Logout]"
proof -
  let ?ctx = "\<lparr>flagsSet = [], args = [''target1'']\<rparr>"
  let ?r = "targetDeleteCmd (validCommand []) ?ctx start"
  have sessions: "tgt_ConnectedSessions target1 \<noteq> []"
    by (simp add: target1_def)
  have force: "\<not> ctx_Bool ?ctx ''force''"
    by (simp add: ctx_Bool_def)
  have "fst ?r = None
       \<and> main ?r = (0, snd ?r)
       \<and> printed loggedIn ?r = targetActiveSessionMsg @ nl @ logoutNotice (validCommand [])
       \<and> remoteCalls loggedIn ?r = [TargetList, Logout]"
    by (rule targetDelete_refusal_is_success
          [OF _ login_validCommand client_validCommand(1) find_fixtures(1) sessions force]) simp
  then show ?thesis
    by (simp add: logoutNotice_validCommand)
qed

end
